theory Spec2Isabelle
  imports Main
begin

section \<open>The power-rail subsystem of platformstats.c\<close>

text \<open>
  The development embeds the hwmon part of \<^verbatim>\<open>src/platformstats.c\<close>:
  \<^verbatim>\<open>read_sysfs_entry\<close>, \<^verbatim>\<open>count_hwmon_reg_devices\<close>,
  \<^verbatim>\<open>get_pmbus_device_filename\<close>, \<^verbatim>\<open>print_pmbus_info\<close> and
  \<^verbatim>\<open>print_power_utilization\<close>, together with the three rail tables.

  Conventions of the embedding.
  \<^item> C strings are \<^typ>\<open>string\<close>; the fixed sizes of the C buffers (255 bytes for a
    path, 50 for a printed index) are not modelled, so every statement below is about
    runs in which the paths fit their buffers.
  \<^item> \<^verbatim>\<open>int\<close> is 32 bits wide and \<^verbatim>\<open>long\<close> 64 (the LP64 targets of the
    program). Their values are \<^typ>\<open>int\<close>, and the bounds are written out where a
    value is made: \<^verbatim>\<open>%ld\<close> stores what \<^verbatim>\<open>strtol\<close> gives, which stops at
    \<^verbatim>\<open>LONG_MAX\<close> and \<^verbatim>\<open>LONG_MIN\<close>, and \<^verbatim>\<open>%d\<close> stores the low 32 bits
    of that.
  \<^item> The file system is a parameter: what \<^verbatim>\<open>fopen(path, "r")\<close> and
    \<^verbatim>\<open>opendir(path)\<close> answer for every path when a file descriptor is free. It
    does not change during a run. A directory lists fewer than \<open>2 ^ 31\<close> entries.
  \<^item> The process state that the functions change (\<^verbatim>\<open>errno\<close>, standard output,
    the sequence of library calls made, the number of file descriptors still free)
    is passed explicitly. A stream or directory that is opened takes one descriptor
    until it is closed; with none free, \<^verbatim>\<open>fopen\<close> and \<^verbatim>\<open>opendir\<close> fail
    with \<^verbatim>\<open>EMFILE\<close>.
  \<^item> A variable that the C code reads before writing it holds whatever the record
    \<open>uninit\<close> says; the statements quantify over it.
  \<^item> Undefined behaviour that the code can reach (a \<^verbatim>\<open>NULL\<close> stream passed to
    \<^verbatim>\<open>fscanf\<close>, a division by zero or of \<^verbatim>\<open>LONG_MIN\<close> by -1, the increment
    of an \<^verbatim>\<open>int\<close> that holds \<^verbatim>\<open>INT_MAX\<close>, a read past the end of a table) is
    the outcome \<open>Crashed\<close>; a loop that does not end is the value \<open>None\<close>.
\<close>

subsection \<open>Strings and the C library functions used\<close>

abbreviation TAB :: string where
  "TAB \<equiv> [CHR 0x09]"

abbreviation NL :: string where
  "NL \<equiv> [CHR 0x0A]"

text \<open>\<^verbatim>\<open>strstr(hay, needle) != NULL\<close>: the needle occurs in the haystack.\<close>

fun strstr :: "string \<Rightarrow> string \<Rightarrow> bool" where
  "strstr [] needle = (needle = [])"
| "strstr (c # cs) needle = (take (length needle) (c # cs) = needle \<or> strstr cs needle)"

text \<open>\<^verbatim>\<open>isspace\<close> in the C locale.\<close>

definition isspace :: "char \<Rightarrow> bool" where
  "isspace c = (c = CHR '' '' \<or> c = CHR 0x09 \<or> c = CHR 0x0A \<or> c = CHR 0x0B
                \<or> c = CHR 0x0C \<or> c = CHR 0x0D)"

text \<open>
  \<^verbatim>\<open>fscanf(fp, "%s", buf)\<close> on a freshly opened stream with the given contents: skips
  white space and stores the next run of non-space characters. When the stream has no
  such run the conversion fails and the buffer is left as it was (\<open>None\<close>).
\<close>

definition scan_s :: "string \<Rightarrow> string option" where
  "scan_s s = (let t = takeWhile (\<lambda>c. \<not> isspace c) (dropWhile isspace s)
               in if t = [] then None else Some t)"

definition isdigit :: "char \<Rightarrow> bool" where
  "isdigit c = (c \<in> set ''0123456789'')"

text \<open>The value of a decimal digit: its position in the digit string.\<close>

definition digit_val :: "char \<Rightarrow> nat" where
  "digit_val c = length (takeWhile (\<lambda>d. d \<noteq> c) ''0123456789'')"

fun dec_val :: "nat \<Rightarrow> string \<Rightarrow> nat" where
  "dec_val acc [] = acc"
| "dec_val acc (c # cs) = dec_val (10 * acc + digit_val c) cs"

text \<open>
  The text that the \<^verbatim>\<open>%d\<close> and \<^verbatim>\<open>%ld\<close> conversions of \<^verbatim>\<open>sscanf\<close> and
  \<^verbatim>\<open>fscanf\<close> take, and the number it denotes: white space, an optional sign,
  then at least one decimal digit. \<open>None\<close> when no digit is there.
\<close>

definition scan_int :: "string \<Rightarrow> int option" where
  "scan_int s =
     (let r = dropWhile isspace s;
          neg = (take 1 r = ''-'');
          r' = (if take 1 r = ''-'' \<or> take 1 r = ''+'' then drop 1 r else r);
          ds = takeWhile isdigit r'
      in if ds = [] then None
         else Some (if neg then - int (dec_val 0 ds) else int (dec_val 0 ds)))"

abbreviation INT_MAX :: int where
  "INT_MAX \<equiv> 2147483647"

abbreviation LONG_MAX :: int where
  "LONG_MAX \<equiv> 9223372036854775807"

abbreviation LONG_MIN :: int where
  "LONG_MIN \<equiv> - 9223372036854775808"

text \<open>
  The conversions go through \<^verbatim>\<open>strtol\<close>, whose result stops at the ends of
  \<^verbatim>\<open>long\<close>.
\<close>

definition strtol_clamp :: "int \<Rightarrow> int" where
  "strtol_clamp v = (if v < LONG_MIN then LONG_MIN else if LONG_MAX < v then LONG_MAX else v)"

text \<open>The \<^verbatim>\<open>int\<close> made of the low 32 bits, and the \<^verbatim>\<open>long\<close> made of the low 64.\<close>

definition low32 :: "int \<Rightarrow> int" where
  "low32 v = (v + 2147483648) mod 4294967296 - 2147483648"

definition low64 :: "int \<Rightarrow> int" where
  "low64 v = (v + 9223372036854775808) mod 18446744073709551616 - 9223372036854775808"

text \<open>
  What \<^verbatim>\<open>%ld\<close> stores in a \<^verbatim>\<open>long\<close> and what \<^verbatim>\<open>%d\<close> stores in an
  \<^verbatim>\<open>int\<close>.
\<close>

definition scan_ld :: "string \<Rightarrow> int option" where
  "scan_ld s = map_option strtol_clamp (scan_int s)"

definition scan_d :: "string \<Rightarrow> int option" where
  "scan_d s = map_option (\<lambda>v. low32 (strtol_clamp v)) (scan_int s)"

text \<open>
  The variable after \<^verbatim>\<open>fscanf(fp, "%s", buf)\<close>, after
  \<^verbatim>\<open>sscanf(s, "%d", &x)\<close> and after \<^verbatim>\<open>fscanf(fp, "%ld", &x)\<close>, given what it
  held before: a conversion that fails leaves it as it was.
\<close>

definition scanf_s :: "string \<Rightarrow> string \<Rightarrow> string" where
  "scanf_s input buf = (case scan_s input of None \<Rightarrow> buf | Some t \<Rightarrow> t)"

definition scanf_d :: "string \<Rightarrow> int \<Rightarrow> int" where
  "scanf_d input x = (case scan_d input of None \<Rightarrow> x | Some n \<Rightarrow> n)"

definition scanf_ld :: "string \<Rightarrow> int \<Rightarrow> int" where
  "scanf_ld input x = (case scan_ld input of None \<Rightarrow> x | Some n \<Rightarrow> n)"

definition digit_char :: "nat \<Rightarrow> char" where
  "digit_char d = ''0123456789'' ! d"

fun show_nat :: "nat \<Rightarrow> string" where
  "show_nat n = (if n < 10 then [digit_char n]
                 else show_nat (n div 10) @ [digit_char (n mod 10)])"

declare show_nat.simps [simp del]

text \<open>\<^verbatim>\<open>sprintf(buf, "%d", i)\<close> and the \<^verbatim>\<open>%ld\<close> of \<^verbatim>\<open>printf\<close>.\<close>

definition show_int :: "int \<Rightarrow> string" where
  "show_int i = (if i < 0 then ''-'' @ show_nat (nat (- i)) else show_nat (nat i))"

text \<open>
  The C division of a \<^verbatim>\<open>long\<close>: the quotient is truncated towards zero. There is
  none when the divisor is zero or the quotient is not a \<^verbatim>\<open>long\<close>, which is the
  case of \<^verbatim>\<open>LONG_MIN\<close> divided by -1 only.
\<close>

definition c_div :: "int \<Rightarrow> int \<Rightarrow> int option" where
  "c_div a b =
     (if b = 0 \<or> (a = LONG_MIN \<and> b = - 1) then None
      else Some (sgn a * sgn b * (\<bar>a\<bar> div \<bar>b\<bar>)))"

text \<open>
  \<^verbatim>\<open>fgets(buf, n, fp)\<close> on a stream with the given contents: at most \<open>n - 1\<close>
  characters, stopping after the first newline; \<open>None\<close> (the C \<^verbatim>\<open>NULL\<close>) at end
  of file.
\<close>

definition fgets :: "nat \<Rightarrow> string \<Rightarrow> string option" where
  "fgets n s =
     (if s = [] then None
      else Some (take (n - 1) (takeWhile (\<lambda>c. c \<noteq> CHR 0x0A) s
                               @ take 1 (dropWhile (\<lambda>c. c \<noteq> CHR 0x0A) s))))"

subsection \<open>The file system and the process state\<close>

text \<open>
  \<open>fopen_r\<close> answers \<^verbatim>\<open>fopen(path, "r")\<close> for a process that has a descriptor
  free: the contents of the file, or the \<^verbatim>\<open>errno\<close> of the failure. \<open>opendir_r\<close>
  answers \<^verbatim>\<open>opendir(path)\<close>: the names that successive \<^verbatim>\<open>readdir\<close> calls
  return, in that order (with \<^verbatim>\<open>.\<close> and \<^verbatim>\<open>..\<close> where the system lists them),
  or the \<^verbatim>\<open>errno\<close> of the failure.
\<close>

record filesys =
  fopen_r :: "string \<Rightarrow> int + string"
  opendir_r :: "string \<Rightarrow> int + string list"

text \<open>The place in the source that makes a library call.\<close>

datatype site =
    Sysfs_entry   \<comment> \<open>\<^verbatim>\<open>read_sysfs_entry\<close>\<close>
  | Class_dir     \<comment> \<open>\<^verbatim>\<open>/sys/class/hwmon\<close> in \<^verbatim>\<open>count_hwmon_reg_devices\<close>\<close>
  | Driver_name   \<comment> \<open>\<^verbatim>\<open>hwmonN/device/driver/ADDRESS/name\<close>\<close>
  | Driver_hwmon  \<comment> \<open>\<^verbatim>\<open>hwmonN/device/driver/ADDRESS/hwmon\<close>\<close>
  | Label_dir     \<comment> \<open>the directory listed by the label scan\<close>
  | Label_file    \<comment> \<open>a file opened by the label scan\<close>
  | Value_file    \<comment> \<open>the attribute file read by \<^verbatim>\<open>print_pmbus_info\<close>\<close>

datatype call =
    Fopen site string
  | Fopen_failed site string
  | Fclose string
  | Opendir site string
  | Opendir_failed site string
  | Closedir string

text \<open>
  One \<^verbatim>\<open>printf\<close>: \<open>Verb\<close> when the call stands under
  \<^verbatim>\<open>if (verbose_flag)\<close>, \<open>Std\<close> otherwise.
\<close>

datatype out = Std string | Verb string

text \<open>
  \<open>fd_free\<close> is the number of file descriptors that the process can still open: its
  limit (\<^verbatim>\<open>RLIMIT_NOFILE\<close>) less the descriptors in use.
\<close>

record proc =
  errno :: int
  stdout :: "out list"
  calls :: "call list"
  fd_free :: nat

abbreviation EMFILE :: int where
  "EMFILE \<equiv> 24"

definition printf :: "string \<Rightarrow> proc \<Rightarrow> proc" where
  "printf s p = p\<lparr>stdout := stdout p @ [Std s]\<rparr>"

definition vprintf :: "bool \<Rightarrow> string \<Rightarrow> proc \<Rightarrow> proc" where
  "vprintf verbose_flag s p = (if verbose_flag then p\<lparr>stdout := stdout p @ [Verb s]\<rparr> else p)"

text \<open>
  \<^verbatim>\<open>fopen\<close> and \<^verbatim>\<open>opendir\<close> take a descriptor before they look at the path,
  and \<^verbatim>\<open>fclose\<close> and \<^verbatim>\<open>closedir\<close> give it back.
\<close>

definition fopen :: "filesys \<Rightarrow> site \<Rightarrow> string \<Rightarrow> proc \<Rightarrow> string option \<times> proc" where
  "fopen fs k path p =
     (if fd_free p = 0
      then (None, p\<lparr>errno := EMFILE, calls := calls p @ [Fopen_failed k path]\<rparr>)
      else
        (case fopen_r fs path of
           Inl e \<Rightarrow> (None, p\<lparr>errno := e, calls := calls p @ [Fopen_failed k path]\<rparr>)
         | Inr contents \<Rightarrow>
             (Some contents,
              p\<lparr>calls := calls p @ [Fopen k path], fd_free := fd_free p - 1\<rparr>)))"

definition fclose :: "string \<Rightarrow> proc \<Rightarrow> proc" where
  "fclose path p = p\<lparr>calls := calls p @ [Fclose path], fd_free := fd_free p + 1\<rparr>"

definition opendir :: "filesys \<Rightarrow> site \<Rightarrow> string \<Rightarrow> proc \<Rightarrow> string list option \<times> proc" where
  "opendir fs k path p =
     (if fd_free p = 0
      then (None, p\<lparr>errno := EMFILE, calls := calls p @ [Opendir_failed k path]\<rparr>)
      else
        (case opendir_r fs path of
           Inl e \<Rightarrow> (None, p\<lparr>errno := e, calls := calls p @ [Opendir_failed k path]\<rparr>)
         | Inr entries \<Rightarrow>
             (Some entries,
              p\<lparr>calls := calls p @ [Opendir k path], fd_free := fd_free p - 1\<rparr>)))"

definition closedir :: "string \<Rightarrow> proc \<Rightarrow> proc" where
  "closedir path p = p\<lparr>calls := calls p @ [Closedir path], fd_free := fd_free p + 1\<rparr>"

text \<open>The streams that a sequence of calls has opened and not closed.\<close>

fun open_files :: "call list \<Rightarrow> string list \<Rightarrow> string list" where
  "open_files [] acc = acc"
| "open_files (Fopen k path # cs) acc = open_files cs (acc @ [path])"
| "open_files (Fclose path # cs) acc = open_files cs (remove1 path acc)"
| "open_files (c # cs) acc = open_files cs acc"

text \<open>
  The contents of the variables that the code reads without having written them: the
  text in a buffer, and the bits of \<^verbatim>\<open>pmbus_value\<close> as a number.
\<close>

record uninit =
  u_filename :: string     \<comment> \<open>\<^verbatim>\<open>char filename[255]\<close> of \<^verbatim>\<open>print_pmbus_info\<close>\<close>
  u_pmbus_value :: int     \<comment> \<open>\<^verbatim>\<open>long pmbus_value\<close> of \<^verbatim>\<open>print_pmbus_info\<close>\<close>
  u_device_name :: string  \<comment> \<open>\<^verbatim>\<open>device_name = malloc(255)\<close>\<close>
  u_reg_label :: string    \<comment> \<open>\<^verbatim>\<open>char reg_label[255]\<close>\<close>

subsection \<open>The sysfs scalar reader\<close>

text \<open>
  \<^verbatim>\<open>int read_sysfs_entry(char* filename, char* value)\<close>. The result is the returned
  \<^verbatim>\<open>int\<close>, the contents of \<^verbatim>\<open>value\<close> afterwards, and the process state. The
  function has two \<^verbatim>\<open>return\<close> statements and no \<^verbatim>\<open>fclose\<close>.
\<close>

definition read_sysfs_entry :: "filesys \<Rightarrow> string \<Rightarrow> string \<Rightarrow> proc \<Rightarrow> int \<times> string \<times> proc" where
  "read_sysfs_entry fs filename val p =
     (case fopen fs Sysfs_entry filename p of
        (None, p1) \<Rightarrow>
          (let p2 = printf (''Unable to open '' @ filename @ NL) p1
           in (errno p2, val, p2))
      | (Some contents, p1) \<Rightarrow>
          (0, scanf_s contents val, p1))"

subsection \<open>The hwmon enumerator\<close>

text \<open>The \<^verbatim>\<open>while ((dir = readdir(d)) != NULL)\<close> loop of the counter.\<close>

fun count_entries :: "string list \<Rightarrow> int \<Rightarrow> int" where
  "count_entries [] num_hwmon_devices = num_hwmon_devices"
| "count_entries (d_name # rest) num_hwmon_devices =
     count_entries rest
       (if strstr d_name ''hwmon'' then num_hwmon_devices + 1 else num_hwmon_devices)"

definition count_hwmon_reg_devices :: "filesys \<Rightarrow> proc \<Rightarrow> int \<times> proc" where
  "count_hwmon_reg_devices fs p =
     (case opendir fs Class_dir ''/sys/class/hwmon'' p of
        (None, p1) \<Rightarrow>
          (let p2 = printf (''Unable to open /sys/class/hwmon path'' @ NL) p1
           in (errno p2, p2))
      | (Some entries, p1) \<Rightarrow>
          (count_entries entries 0, closedir ''/sys/class/hwmon'' p1))"

subsection \<open>Rail descriptors\<close>

text \<open>
  Modelled from the spec: \<^verbatim>\<open>struct pmbus_info\<close> is declared in
  \<^verbatim>\<open>platformstats.h\<close>, which is not among the sources. The fields and their order
  are those of the table initialisers and of the uses in \<^verbatim>\<open>platformstats.c\<close>
  (device, address, name, label, alias, unit, division); they are the spec's
  \<^verbatim>\<open>chipModel\<close>, \<^verbatim>\<open>busAddress\<close>, \<^verbatim>\<open>explicitAttribute\<close>, \<^verbatim>\<open>label\<close>,
  \<^verbatim>\<open>displayAlias\<close>, \<^verbatim>\<open>unit\<close> and \<^verbatim>\<open>scaleDivisor\<close>. The field \<open>name\<close>
  is also the cache that the spec calls \<^verbatim>\<open>resolvedAttribute\<close>.
\<close>

record pmbus_info =
  device :: string
  address :: string
  name :: string
  label :: string
  "alias" :: string
  unit :: string
  division :: int

subsection \<open>The device and channel resolver\<close>

text \<open>
  How a call of \<^verbatim>\<open>get_pmbus_device_filename\<close> ends: with
  \<^verbatim>\<open>return hwmon_id\<close>, \<^verbatim>\<open>return(-1)\<close> or \<^verbatim>\<open>return(errno)\<close>, or in the
  \<^verbatim>\<open>hwmon_id++\<close> of the loop when \<^verbatim>\<open>hwmon_id\<close> holds \<^verbatim>\<open>INT_MAX\<close>, which is
  undefined. \<open>exit_code\<close> is the value that the C function returns, if it returns.
\<close>

datatype exit = Found int | Not_found | Errno int | Overflow

definition exit_code :: "exit \<Rightarrow> int option" where
  "exit_code x =
     (case x of Found i \<Rightarrow> Some i | Not_found \<Rightarrow> Some (- 1) | Errno e \<Rightarrow> Some e
      | Overflow \<Rightarrow> None)"

text \<open>The variables that live across the iterations of the \<^verbatim>\<open>for\<close> loop.\<close>

record locals =
  hwmon_id :: int
  filename :: string
  device_name :: string
  reg_label :: string

text \<open>
  The \<^verbatim>\<open>while ((dir = readdir(d)) != NULL)\<close> loop of the label scan, over the
  entries that \<^verbatim>\<open>readdir\<close> has still to return. \<open>Matched\<close> carries
  \<^verbatim>\<open>reg_name\<close>, \<^verbatim>\<open>filename\<close> and the process state at the
  \<^verbatim>\<open>return hwmon_id\<close>; \<open>No_match\<close> carries \<^verbatim>\<open>filename\<close>,
  \<^verbatim>\<open>reg_label\<close> and the process state when \<^verbatim>\<open>readdir\<close> returns
  \<^verbatim>\<open>NULL\<close>.
\<close>

datatype scan = Matched string string proc | No_match string string proc

fun label_scan ::
  "bool \<Rightarrow> filesys \<Rightarrow> pmbus_info \<Rightarrow> string \<Rightarrow> string list \<Rightarrow> string \<Rightarrow> string \<Rightarrow> proc \<Rightarrow> scan"
where
  "label_scan verbose_flag fs pInfo hwmon_id_str [] fname reg_lbl p = No_match fname reg_lbl p"
| "label_scan verbose_flag fs pInfo hwmon_id_str (d_name # rest) fname reg_lbl p =
     (if strstr d_name ''label'' then
        (case fopen fs Label_file (''/sys/class/hwmon/hwmon'' @ hwmon_id_str @ ''/'' @ d_name) p of
           (None, p1) \<Rightarrow>
             label_scan verbose_flag fs pInfo hwmon_id_str rest
               (''/sys/class/hwmon/hwmon'' @ hwmon_id_str @ ''/'' @ d_name) reg_lbl
               (printf (''unable to open '' @ ''/sys/class/hwmon/hwmon'' @ hwmon_id_str
                        @ ''/'' @ d_name @ NL) p1)
         | (Some contents, p1) \<Rightarrow>
             (if scanf_s contents reg_lbl = label pInfo then
                Matched
                  (take (length d_name - 5) d_name @ ''input'')
                  (''/sys/class/hwmon/hwmon'' @ hwmon_id_str @ ''/''
                   @ take (length d_name - 5) d_name @ ''input'')
                  (vprintf verbose_flag
                     (TAB @ device pInfo @ ''@'' @ address pInfo @ ''-'' @ label pInfo @ '' => ''
                      @ ''/sys/class/hwmon/hwmon'' @ hwmon_id_str @ ''/''
                      @ take (length d_name - 5) d_name @ ''input'' @ NL)
                     (fclose (''/sys/class/hwmon/hwmon'' @ hwmon_id_str @ ''/'' @ d_name) p1))
              else
                label_scan verbose_flag fs pInfo hwmon_id_str rest
                  (''/sys/class/hwmon/hwmon'' @ hwmon_id_str @ ''/'' @ d_name)
                  (scanf_s contents reg_lbl)
                  (fclose (''/sys/class/hwmon/hwmon'' @ hwmon_id_str @ ''/'' @ d_name) p1)))
      else label_scan verbose_flag fs pInfo hwmon_id_str rest fname reg_lbl p)"

text \<open>
  The end of one iteration of the \<^verbatim>\<open>for\<close> loop: either the loop goes on (with
  \<^verbatim>\<open>hwmon_id++\<close> still to come) or the function returns an exit, the contents of
  the caller's \<^verbatim>\<open>filename\<close>, the descriptor and the process state.
\<close>

datatype step = Continue locals proc | Return exit string pmbus_info proc

text \<open>
  The part of the loop body after the third \<^verbatim>\<open>readdir\<close> has returned the entry
  \<open>d_name\<close>: \<^verbatim>\<open>sscanf(&(dir->d_name[5]), "%d", &hwmon_id)\<close> overwrites the loop
  variable (after a name of fewer than five characters the buffer is taken to hold
  no number), then the explicit attribute is taken or the labels are scanned. When
  the scan finds nothing the body ends, and the loop resumes from the overwritten
  \<^verbatim>\<open>hwmon_id\<close>.
\<close>

definition select_channel ::
  "bool \<Rightarrow> filesys \<Rightarrow> pmbus_info \<Rightarrow> locals \<Rightarrow> string \<Rightarrow> proc \<Rightarrow> step"
where
  "select_channel verbose_flag fs pInfo l d_name p =
     (let id = scanf_d (drop 5 d_name) (hwmon_id l);
          hwmon_id_str = show_int id
      in if name pInfo \<noteq> []
         then Return (Found id) (''/sys/class/hwmon/hwmon'' @ hwmon_id_str @ ''/'' @ name pInfo) pInfo
                (vprintf verbose_flag
                   (TAB @ device pInfo @ ''@'' @ address pInfo @ ''-'' @ label pInfo @ '' => ''
                    @ ''/sys/class/hwmon/hwmon'' @ hwmon_id_str @ ''/'' @ name pInfo @ NL) p)
         else
           (case opendir fs Label_dir (''/sys/class/hwmon/hwmon'' @ hwmon_id_str)
                   (vprintf verbose_flag
                      (TAB @ ''Searching for name that matches label '' @ label pInfo @ NL) p) of
              (None, p1) \<Rightarrow>
                (let p2 = printf (''Unable to open '' @ ''/sys/class/hwmon/hwmon'' @ hwmon_id_str
                                  @ '' path'' @ NL) p1
                 in Return (Errno (errno p2)) (''/sys/class/hwmon/hwmon'' @ hwmon_id_str) pInfo p2)
            | (Some entries, p1) \<Rightarrow>
                (case label_scan verbose_flag fs pInfo hwmon_id_str entries
                        (''/sys/class/hwmon/hwmon'' @ hwmon_id_str) (reg_label l) p1 of
                   Matched reg_name fname p2 \<Rightarrow>
                     Return (Found id) fname (pInfo\<lparr>name := reg_name\<rparr>) p2
                 | No_match fname reg_lbl p2 \<Rightarrow>
                     Continue (l\<lparr>hwmon_id := id, filename := fname, reg_label := reg_lbl\<rparr>)
                       (closedir (''/sys/class/hwmon/hwmon'' @ hwmon_id_str) p2))))"

text \<open>The body of the \<^verbatim>\<open>for\<close> loop.\<close>

definition loop_body :: "bool \<Rightarrow> filesys \<Rightarrow> pmbus_info \<Rightarrow> locals \<Rightarrow> proc \<Rightarrow> step" where
  "loop_body verbose_flag fs pInfo l p =
     (let name_path = ''/sys/class/hwmon/hwmon'' @ show_int (hwmon_id l) @ ''/device/driver/''
                      @ address pInfo @ ''/name'';
          hwmon_path = ''/sys/class/hwmon/hwmon'' @ show_int (hwmon_id l) @ ''/device/driver/''
                      @ address pInfo @ ''/hwmon''
      in case fopen fs Driver_name name_path p of
           (None, p1) \<Rightarrow> Continue (l\<lparr>filename := name_path\<rparr>) p1
         | (Some contents, p1) \<Rightarrow>
             (let dn = scanf_s contents (device_name l);
                  p2 = vprintf verbose_flag (TAB @ name_path @ '' => '' @ dn @ NL)
                         (fclose name_path p1)
              in if device pInfo \<noteq> dn
                 then Continue (l\<lparr>filename := name_path, device_name := dn\<rparr>) p2
                 else
                   (case opendir fs Driver_hwmon hwmon_path p2 of
                      (None, p3) \<Rightarrow>
                        (let p4 = printf (''Unable to open '' @ hwmon_path @ '' path'' @ NL) p3
                         in Return (Errno (errno p4)) hwmon_path pInfo p4)
                    | (Some entries, p3) \<Rightarrow>
                        (case drop 2 entries of
                           [] \<Rightarrow>
                             (let p4 = printf (''Unable to read '' @ hwmon_path @ '' directory''
                                               @ NL) p3
                              in Return (Errno (errno p4)) hwmon_path pInfo p4)
                         | d_name # later \<Rightarrow>
                             select_channel verbose_flag fs pInfo
                               (l\<lparr>filename := hwmon_path, device_name := dn\<rparr>) d_name
                               (vprintf verbose_flag
                                  (TAB @ hwmon_path @ '' => '' @ d_name @ NL) p3)))))"

text \<open>
  \<^verbatim>\<open>for (hwmon_id = 0; hwmon_id < num_hwmon_devices; hwmon_id++)\<close>. Since the body
  assigns to \<^verbatim>\<open>hwmon_id\<close>, the number of iterations is not bounded by
  \<^verbatim>\<open>num_hwmon_devices\<close>: the loop is a partial function, and \<open>None\<close> would be
  a run that never returns.
\<close>

partial_function (option) hwmon_loop ::
  "bool \<Rightarrow> filesys \<Rightarrow> pmbus_info \<Rightarrow> int \<Rightarrow> locals \<Rightarrow> proc
   \<Rightarrow> (exit \<times> string \<times> pmbus_info \<times> proc) option"
where
  "hwmon_loop verbose_flag fs pInfo num_hwmon_devices l p =
     (if hwmon_id l < num_hwmon_devices then
        (case loop_body verbose_flag fs pInfo l p of
           Continue l' p' \<Rightarrow>
             (if hwmon_id l' = INT_MAX then Some (Overflow, filename l', pInfo, p')
              else hwmon_loop verbose_flag fs pInfo num_hwmon_devices
                     (l'\<lparr>hwmon_id := hwmon_id l' + 1\<rparr>) p')
         | Return x fname pInfo' p' \<Rightarrow> Some (x, fname, pInfo', p'))
      else Some (Not_found, filename l, pInfo, p))"

declare hwmon_loop.simps [code]

text \<open>
  \<^verbatim>\<open>int get_pmbus_device_filename(int verbose_flag, struct pmbus_info *pInfo,
  char *filename)\<close>. The argument \<open>fname\<close> is the contents of the caller's buffer
  on entry. The result is the exit, the buffer and the descriptor on return, and the
  process state.
\<close>

definition get_pmbus_device_filename ::
  "bool \<Rightarrow> filesys \<Rightarrow> uninit \<Rightarrow> pmbus_info \<Rightarrow> string \<Rightarrow> proc
   \<Rightarrow> (exit \<times> string \<times> pmbus_info \<times> proc) option"
where
  "get_pmbus_device_filename verbose_flag fs u pInfo fname p =
     (case count_hwmon_reg_devices fs p of
        (num_hwmon_devices, p1) \<Rightarrow>
          hwmon_loop verbose_flag fs pInfo num_hwmon_devices
            \<lparr>hwmon_id = 0, filename = fname, device_name = u_device_name u,
             reg_label = u_reg_label u\<rparr> p1)"

subsection \<open>The reporter\<close>

datatype 'a outcome = Returned 'a | Crashed

text \<open>
  The \<^verbatim>\<open>while (strcmp(pmbus_list[i].device, ""))\<close> loop of
  \<^verbatim>\<open>print_pmbus_info\<close>, over the rows from index \<open>i\<close> on. The result holds
  those rows as the loop leaves them. The value returned by the resolver is not
  looked at; \<^verbatim>\<open>fscanf\<close> is called also when \<^verbatim>\<open>fopen\<close> has returned
  \<^verbatim>\<open>NULL\<close>. The quotient is computed for the \<^verbatim>\<open>printf\<close> that follows
  \<^verbatim>\<open>fclose\<close>.
\<close>

fun rails_loop ::
  "bool \<Rightarrow> filesys \<Rightarrow> uninit \<Rightarrow> nat \<Rightarrow> pmbus_info list \<Rightarrow> string \<Rightarrow> int \<Rightarrow> proc
   \<Rightarrow> (unit outcome \<times> pmbus_info list \<times> proc) option"
where
  "rails_loop verbose_flag fs u i [] fname pmbus_value p = Some (Crashed, [], p)"
| "rails_loop verbose_flag fs u i (row # rest) fname pmbus_value p =
     (if device row = [] then Some (Returned (), row # rest, p)
      else
        (case get_pmbus_device_filename verbose_flag fs u row fname
                (vprintf verbose_flag
                   (''['' @ show_int (int i) @ ''] '' @ device row @ '','' @ address row @ '',''
                    @ label row @ '','' @ name row @ '','' @ unit row @ NL) p) of
           None \<Rightarrow> None
         | Some (x, fname', row', p1) \<Rightarrow>
             (if x = Overflow then Some (Crashed, row' # rest, p1)
              else
                (case fopen fs Value_file fname'
                        (vprintf verbose_flag
                           (TAB @ device row' @ ''@'' @ address row' @ ''-'' @ label row'
                            @ '' => '' @ fname' @ NL) p1) of
                   (None, p2) \<Rightarrow>
                     Some (Crashed, row' # rest, printf (''unable to open '' @ fname' @ NL) p2)
                 | (Some contents, p2) \<Rightarrow>
                     (case c_div (scanf_ld contents pmbus_value) (division row') of
                        None \<Rightarrow> Some (Crashed, row' # rest, fclose fname' p2)
                      | Some quot \<Rightarrow>
                          (case rails_loop verbose_flag fs u (Suc i) rest fname'
                                  (scanf_ld contents pmbus_value)
                                  (printf
                                     (TAB @ device row' @ ''@'' @ address row' @ ''-''
                                      @ label row' @ '' ('' @ alias row' @ '') = ''
                                      @ show_int quot @ '' '' @ unit row' @ NL)
                                     (fclose fname' p2)) of
                             None \<Rightarrow> None
                           | Some (r, rest', p3) \<Rightarrow> Some (r, row' # rest', p3)))))))"

text \<open>\<^verbatim>\<open>void print_pmbus_info(int verbose_flag, struct pmbus_info pmbus_list[])\<close>.\<close>

definition print_pmbus_info ::
  "bool \<Rightarrow> filesys \<Rightarrow> uninit \<Rightarrow> pmbus_info list \<Rightarrow> proc
   \<Rightarrow> (unit outcome \<times> pmbus_info list \<times> proc) option"
where
  "print_pmbus_info verbose_flag fs u pmbus_list p =
     rails_loop verbose_flag fs u 0 pmbus_list (u_filename u) (low64 (u_pmbus_value u))
       (printf (NL @ ''Power Utilization:'' @ NL) p)"

subsection \<open>The rail tables and the report driver\<close>

text \<open>One initialiser of a table, in the order of the C fields.\<close>

definition row :: "string \<Rightarrow> string \<Rightarrow> string \<Rightarrow> string \<Rightarrow> string \<Rightarrow> string \<Rightarrow> int \<Rightarrow> pmbus_info" where
  "row dev addr nm lbl al un dv =
     \<lparr>device = dev, address = addr, name = nm, label = lbl, alias = al, unit = un,
      division = dv\<rparr>"

text \<open>
  The last initialiser of each table, \<^verbatim>\<open>{ "", "", "", "", "", 1 }\<close>: it has six
  values for seven fields, so \<^verbatim>\<open>unit\<close> is the pointer made from \<^verbatim>\<open>1\<close> and
  \<^verbatim>\<open>division\<close> is \<^verbatim>\<open>0\<close>. The loop stops at its empty \<^verbatim>\<open>device\<close> and reads no
  other field of it.
\<close>

definition sentinel :: pmbus_info where
  "sentinel = row [] [] [] [] [] [] 0"

definition pmbus_ultra96v2 :: "pmbus_info list" where
  "pmbus_ultra96v2 =
     [row ''ir38060'' ''6-0045'' '''' ''pout1'' ''         5V'' ''mW'' 1000,
      row ''ir38060'' ''6-0045'' '''' ''iout1'' ''         5V'' ''mA'' 1,
      row ''ir38060'' ''6-0045'' '''' ''iout1'' ''         5V'' ''mV'' 1,
      row ''ir38060'' ''6-0045'' ''temp1_input'' ''temp1'' ''Temperature'' ''C'' 1000,
      row ''irps5401'' ''6-0043'' '''' ''pout1'' ''     VCCAUX'' ''mW'' 1000,
      row ''irps5401'' ''6-0043'' '''' ''pout2'' ''  VCCO 1.2V'' ''mW'' 1000,
      row ''irps5401'' ''6-0043'' '''' ''pout3'' ''  VCCO 1.1V'' ''mW'' 1000,
      row ''irps5401'' ''6-0043'' '''' ''pout4'' ''     VCCINT'' ''mW'' 1000,
      row ''irps5401'' ''6-0043'' '''' ''pout5'' ''    3.3V DP'' ''mW'' 1000,
      row ''irps5401'' ''6-0043'' ''temp1_input'' ''temp1'' ''Temperature'' ''C'' 1000,
      row ''irps5401'' ''6-0044'' '''' ''pout1'' ''   VCCPSAUX'' ''mW'' 1000,
      row ''irps5401'' ''6-0044'' '''' ''pout2'' ''   PSINT_LP'' ''mW'' 1000,
      row ''irps5401'' ''6-0044'' '''' ''pout3'' ''  VCCO 3.3V'' ''mW'' 1000,
      row ''irps5401'' ''6-0044'' '''' ''pout4'' ''   PSINT_FP'' ''mW'' 1000,
      row ''irps5401'' ''6-0044'' '''' ''pout5'' '' PSPLL 1.2V'' ''mW'' 1000,
      row ''irps5401'' ''6-0044'' ''temp1_input'' ''temp1'' ''Temperature'' ''C'' 1000,
      sentinel]"

definition pmbus_uz7ev_evcc :: "pmbus_info list" where
  "pmbus_uz7ev_evcc =
     [row ''ir38063'' ''6-004c'' '''' ''pout1'' ''              Carrier 3V3'' ''mW'' 1000,
      row ''ir38063'' ''6-004b'' '''' ''pout1'' ''              Carrier 1V8'' ''mW'' 1000,
      row ''irps5401'' ''6-004a'' '''' ''pout1'' ''      Carrier 0V9 MGTAVCC'' ''mW'' 1000,
      row ''irps5401'' ''6-004a'' '''' ''pout2'' ''      Carrier 1V2 MGTAVTT'' ''mW'' 1000,
      row ''irps5401'' ''6-004a'' '''' ''pout3'' ''         Carrier 1V1 HDMI'' ''mW'' 1000,
      row ''irps5401'' ''6-004a'' '''' ''pout5'' ''Carrier 1V8 MGTVCCAUX LDO'' ''mW'' 1000,
      row ''irps5401'' ''6-0049'' '''' ''pout1'' ''    Carrier 0V85 MGTRAVCC'' ''mW'' 1000,
      row ''irps5401'' ''6-0049'' '''' ''pout2'' ''         Carrier 1V8 VCCO'' ''mW'' 1000,
      row ''irps5401'' ''6-0049'' '''' ''pout3'' ''         Carrier 3V3 VCCO'' ''mW'' 1000,
      row ''irps5401'' ''6-0049'' '''' ''pout4'' ''          Carrier 5V MAIN'' ''mW'' 1000,
      row ''irps5401'' ''6-0049'' '''' ''pout5'' '' Carrier 1V8 MGTRAVTT LDO'' ''mW'' 1000,
      row ''irps5401'' ''6-0049'' ''temp1_input'' ''temp1'' ''              Temperature'' ''C'' 1000,
      row ''ir38063'' ''6-0048'' '''' ''pout1'' ''          SOM 0V85 VCCINT'' ''mW'' 1000,
      row ''irps5401'' ''6-0047'' '''' ''pout1'' ''           SOM 1V8 VCCAUX'' ''mW'' 1000,
      row ''irps5401'' ''6-0047'' '''' ''pout2'' ''                  SOM 3V3'' ''mW'' 1000,
      row ''irps5401'' ''6-0047'' '''' ''pout3'' ''           SOM 0V9 VCUINT'' ''mW'' 1000,
      row ''irps5401'' ''6-0047'' '''' ''pout4'' ''       SOM 1V2 VCCO_HP_66'' ''mW'' 1000,
      row ''irps5401'' ''6-0047'' '''' ''pout5'' ''    SOM 1V8 PSDDR_PLL LDO'' ''mW'' 1000,
      row ''irps5401'' ''6-0047'' ''temp1_input'' ''temp1'' ''              Temperature'' ''C'' 1000,
      row ''irps5401'' ''6-0046'' '''' ''pout1'' ''        SOM 1V2 VCCO_PSIO'' ''mW'' 1000,
      row ''irps5401'' ''6-0046'' '''' ''pout2'' ''     SOM 0V85 VCC_PSINTLP'' ''mW'' 1000,
      row ''irps5401'' ''6-0046'' '''' ''pout3'' ''  SOM 1V2 VCCO_PSDDR4_504'' ''mW'' 1000,
      row ''irps5401'' ''6-0046'' '''' ''pout4'' ''     SOM 0V85 VCC_PSINTFP'' ''mW'' 1000,
      row ''irps5401'' ''6-0046'' '''' ''pout5'' ''    SOM 1V2 VCC_PSPLL LDO'' ''mW'' 1000,
      row ''irps5401'' ''6-0046'' ''temp1_input'' ''temp1'' ''              Temperature'' ''C'' 1000,
      sentinel]"

definition pmbus_uz3eg_xxx :: "pmbus_info list" where
  "pmbus_uz3eg_xxx =
     [row ''irps5401'' ''6-0043'' '''' ''pout1'' ''       PSIO'' ''mW'' 1000,
      row ''irps5401'' ''6-0043'' '''' ''pout2'' ''     VCCAUX'' ''mW'' 1000,
      row ''irps5401'' ''6-0043'' '''' ''pout3'' ''    PSINTLP'' ''mW'' 1000,
      row ''irps5401'' ''6-0043'' '''' ''pout4'' ''    PSINTFP'' ''mW'' 1000,
      row ''irps5401'' ''6-0043'' '''' ''pout5'' ''      PSPLL'' ''mW'' 1000,
      row ''irps5401'' ''6-0043'' ''temp1_input'' ''temp1'' ''Temperature'' ''C'' 1000,
      row ''irps5401'' ''6-0044'' '''' ''pout1'' ''     PSDDR4'' ''mW'' 1000,
      row ''irps5401'' ''6-0044'' '''' ''pout2'' ''     INT_IO'' ''mW'' 1000,
      row ''irps5401'' ''6-0044'' '''' ''pout3'' ''       3.3V'' ''mW'' 1000,
      row ''irps5401'' ''6-0044'' '''' ''pout4'' ''        INT'' ''mW'' 1000,
      row ''irps5401'' ''6-0044'' '''' ''pout5'' ''   PSDDRPLL'' ''mW'' 1000,
      row ''irps5401'' ''6-0044'' ''temp1_input'' ''temp1'' ''Temperature'' ''C'' 1000,
      row ''irps5401'' ''6-0045'' '''' ''pout1'' ''    MGTAVCC'' ''mW'' 1000,
      row ''irps5401'' ''6-0045'' '''' ''pout2'' ''         5V'' ''mW'' 1000,
      row ''irps5401'' ''6-0045'' '''' ''pout3'' ''       3.3V'' ''mW'' 1000,
      row ''irps5401'' ''6-0045'' '''' ''pout4'' ''  VCCO 1.8V'' ''mW'' 1000,
      row ''irps5401'' ''6-0045'' '''' ''pout5'' ''    MGTAVTT'' ''mW'' 1000,
      row ''irps5401'' ''6-0045'' ''temp1_input'' ''temp1'' ''Temperature'' ''C'' 1000,
      sentinel]"

text \<open>The three global arrays, which the resolver updates in place.\<close>

record tables =
  ultra96v2 :: "pmbus_info list"
  uz7ev_evcc :: "pmbus_info list"
  uz3eg_xxx :: "pmbus_info list"

definition initial_tables :: tables where
  "initial_tables =
     \<lparr>ultra96v2 = pmbus_ultra96v2, uz7ev_evcc = pmbus_uz7ev_evcc, uz3eg_xxx = pmbus_uz3eg_xxx\<rparr>"

text \<open>
  \<^verbatim>\<open>int print_power_utilization(int verbose_flag)\<close>. \<open>hostname_cmd\<close> is what
  \<^verbatim>\<open>popen("hostname", "r")\<close> gives: \<open>None\<close> when it returns \<^verbatim>\<open>NULL\<close> (for
  want of the command, of memory or of descriptors for the pipe), else the output of
  the command; \<^verbatim>\<open>pclose\<close> gives back what \<^verbatim>\<open>popen\<close> took.
  \<^verbatim>\<open>hostname\<close> starts as the empty string. The three
  \<^verbatim>\<open>if (strstr(hostname, ...))\<close> statements follow one another.
\<close>

definition read_hostname :: "string option \<Rightarrow> string option" where
  "read_hostname hostname_cmd = (case hostname_cmd of None \<Rightarrow> None | Some s \<Rightarrow> fgets 128 s)"

definition print_power_utilization ::
  "bool \<Rightarrow> filesys \<Rightarrow> uninit \<Rightarrow> string option \<Rightarrow> tables \<Rightarrow> proc
   \<Rightarrow> (int outcome \<times> tables \<times> proc) option"
where
  "print_power_utilization verbose_flag fs u hostname_cmd g p =
     (let hostname = (case read_hostname hostname_cmd of None \<Rightarrow> [] | Some line \<Rightarrow> line);
          p0 = (case read_hostname hostname_cmd of
                  None \<Rightarrow> p
                | Some line \<Rightarrow> vprintf verbose_flag (''hostname='' @ line @ NL) p)
      in case (if strstr hostname ''u96v2''
               then print_pmbus_info verbose_flag fs u (ultra96v2 g)
                      (vprintf verbose_flag (''Ultra96-V2'' @ NL) p0)
               else Some (Returned (), ultra96v2 g, p0)) of
           None \<Rightarrow> None
         | Some (Crashed, t1, p1) \<Rightarrow> Some (Crashed, g\<lparr>ultra96v2 := t1\<rparr>, p1)
         | Some (Returned r1, t1, p1) \<Rightarrow>
             (case (if strstr hostname ''uz7ev''
                    then print_pmbus_info verbose_flag fs u (uz7ev_evcc g)
                           (vprintf verbose_flag (''UltraZed-7EV-EVCC'' @ NL) p1)
                    else Some (Returned (), uz7ev_evcc g, p1)) of
                None \<Rightarrow> None
              | Some (Crashed, t2, p2) \<Rightarrow>
                  Some (Crashed, g\<lparr>ultra96v2 := t1, uz7ev_evcc := t2\<rparr>, p2)
              | Some (Returned r2, t2, p2) \<Rightarrow>
                  (case (if strstr hostname ''uz3eg''
                         then print_pmbus_info verbose_flag fs u (uz3eg_xxx g)
                                (vprintf verbose_flag (''UltraZed-3EG'' @ NL) p2)
                         else Some (Returned (), uz3eg_xxx g, p2)) of
                     None \<Rightarrow> None
                   | Some (Crashed, t3, p3) \<Rightarrow>
                       Some (Crashed, g\<lparr>ultra96v2 := t1, uz7ev_evcc := t2, uz3eg_xxx := t3\<rparr>, p3)
                   | Some (Returned r3, t3, p3) \<Rightarrow>
                       Some (Returned 0,
                             g\<lparr>ultra96v2 := t1, uz7ev_evcc := t2, uz3eg_xxx := t3\<rparr>, p3))))"

section \<open>Notions used in the statements\<close>

text \<open>
  The loop with a bound on the number of iterations: the same body, \<open>None\<close> when
  the bound is used up. It is \<open>hwmon_loop\<close> wherever that returns
  (lemma \<open>hwmon_loop_iff\<close> below), and serves for inductions on the number of
  iterations.
\<close>

fun hwmon_loop_n ::
  "nat \<Rightarrow> bool \<Rightarrow> filesys \<Rightarrow> pmbus_info \<Rightarrow> int \<Rightarrow> locals \<Rightarrow> proc
   \<Rightarrow> (exit \<times> string \<times> pmbus_info \<times> proc) option"
where
  "hwmon_loop_n 0 verbose_flag fs pInfo num_hwmon_devices l p = None"
| "hwmon_loop_n (Suc k) verbose_flag fs pInfo num_hwmon_devices l p =
     (if hwmon_id l < num_hwmon_devices then
        (case loop_body verbose_flag fs pInfo l p of
           Continue l' p' \<Rightarrow>
             (if hwmon_id l' = INT_MAX then Some (Overflow, filename l', pInfo, p')
              else hwmon_loop_n k verbose_flag fs pInfo num_hwmon_devices
                     (l'\<lparr>hwmon_id := hwmon_id l' + 1\<rparr>) p')
         | Return x fname pInfo' p' \<Rightarrow> Some (x, fname, pInfo', p'))
      else Some (Not_found, filename l, pInfo, p))"

text \<open>
  The library calls of the label scan: the \<^verbatim>\<open>opendir\<close> of the directory it lists
  and the \<^verbatim>\<open>fopen\<close> of each file it reads, whether or not they succeed.
\<close>

fun is_label_call :: "call \<Rightarrow> bool" where
  "is_label_call (Fopen k path) = (k = Label_file)"
| "is_label_call (Fopen_failed k path) = (k = Label_file)"
| "is_label_call (Opendir k path) = (k = Label_dir)"
| "is_label_call (Opendir_failed k path) = (k = Label_dir)"
| "is_label_call (Fclose path) = False"
| "is_label_call (Closedir path) = False"

definition label_calls :: "proc \<Rightarrow> call list" where
  "label_calls p = filter is_label_call (calls p)"

text \<open>
  The hwmon index that iteration \<open>i\<close> of the loop reads for a bus address: the
  number after the first five characters of the third entry of
  \<^verbatim>\<open>hwmon<i>/device/driver/<address>/hwmon\<close> (\<open>i\<close> itself when no number is
  there), if that directory opens and has a third entry.
\<close>

definition bound_hwmon :: "filesys \<Rightarrow> string \<Rightarrow> int \<Rightarrow> int option" where
  "bound_hwmon fs addr i =
     (case opendir_r fs (''/sys/class/hwmon/hwmon'' @ show_int i @ ''/device/driver/'' @ addr
                         @ ''/hwmon'') of
        Inl e \<Rightarrow> None
      | Inr entries \<Rightarrow>
          (case drop 2 entries of
             [] \<Rightarrow> None
           | d_name # later \<Rightarrow> Some (scanf_d (drop 5 d_name) i)))"

text \<open>The process state with the output of the verbose mode left out.\<close>

fun is_std :: "out \<Rightarrow> bool" where
  "is_std (Std s) = True"
| "is_std (Verb s) = False"

definition quiet :: "proc \<Rightarrow> proc" where
  "quiet p = p\<lparr>stdout := filter is_std (stdout p)\<rparr>"



text \<open>The process state with its output replaced by a function of it.\<close>

definition on_stdout :: "(out list \<Rightarrow> out list) \<Rightarrow> proc \<Rightarrow> proc" where
  "on_stdout f p = p\<lparr>stdout := f (stdout p)\<rparr>"

text \<open>
  What \<^verbatim>\<open>print_pmbus_info\<close> prints for a table when it is called in the state
  \<open>p\<close>: its output when nothing has been printed before.
\<close>

definition power_report ::
  "bool \<Rightarrow> filesys \<Rightarrow> uninit \<Rightarrow> pmbus_info list \<Rightarrow> proc \<Rightarrow> out list"
where
  "power_report verbose_flag fs u pmbus_list p =
     (case print_pmbus_info verbose_flag fs u pmbus_list (p\<lparr>stdout := []\<rparr>) of
        None \<Rightarrow> []
      | Some (r, t, q) \<Rightarrow> stdout q)"

text \<open>
  A word is what \<^verbatim>\<open>%s\<close> reads whole: it is not empty and has no white space. A
  sysfs attribute holds its value followed by a newline.
\<close>

definition is_word :: "string \<Rightarrow> bool" where
  "is_word w = (w \<noteq> [] \<and> list_all (\<lambda>c. \<not> isspace c) w)"

text \<open>
  The two paths that lead from \<^verbatim>\<open>hwmon<j>\<close> to the device bound at a bus address:
  the name of its driver, and the directory that lists its own hwmon instance.
\<close>

definition name_path :: "nat \<Rightarrow> string \<Rightarrow> string" where
  "name_path j addr =
     ''/sys/class/hwmon/hwmon'' @ show_nat j @ ''/device/driver/'' @ addr @ ''/name''"

definition hwmon_path :: "nat \<Rightarrow> string \<Rightarrow> string" where
  "hwmon_path j addr =
     ''/sys/class/hwmon/hwmon'' @ show_nat j @ ''/device/driver/'' @ addr @ ''/hwmon''"

text \<open>
  Nothing of the descriptor's driver is found through \<^verbatim>\<open>hwmon<j>\<close>: the name file
  under the descriptor's address does not open, or it holds another driver's name.
\<close>

definition other_driver :: "filesys \<Rightarrow> pmbus_info \<Rightarrow> nat \<Rightarrow> bool" where
  "other_driver fs pInfo j =
     (case fopen_r fs (name_path j (address pInfo)) of
        Inl e \<Rightarrow> True
      | Inr c \<Rightarrow> c \<noteq> [] \<and> last c = CHR 0x0A \<and> is_word (butlast c)
                 \<and> butlast c \<noteq> device pInfo)"

text \<open>
  The device of a descriptor is bound as \<^verbatim>\<open>hwmon<M>\<close> and first met at
  \<^verbatim>\<open>hwmon<i>\<close>: the class directory lists more than \<open>i\<close> hwmon entries, nothing
  of the driver is found through an earlier one, the name file reached through
  \<^verbatim>\<open>hwmon<i>\<close> holds the descriptor's device, and the third entry of the directory
  beside it is \<^verbatim>\<open>hwmon<M>\<close>. The two numbers and the number of entries are
  values of an \<^verbatim>\<open>int\<close>.
\<close>

definition first_bound :: "filesys \<Rightarrow> pmbus_info \<Rightarrow> nat \<Rightarrow> nat \<Rightarrow> bool" where
  "first_bound fs pInfo i M =
     ((case opendir_r fs ''/sys/class/hwmon'' of
         Inl e \<Rightarrow> False
       | Inr entries \<Rightarrow> i < length (filter (\<lambda>d_name. strstr d_name ''hwmon'') entries)
                        \<and> length entries < 2147483648)
      \<and> list_all (other_driver fs pInfo) [0..<i]
      \<and> is_word (device pInfo)
      \<and> fopen_r fs (name_path i (address pInfo)) = Inr (device pInfo @ NL)
      \<and> (case opendir_r fs (hwmon_path i (address pInfo)) of
            Inl e \<Rightarrow> False
          | Inr entries \<Rightarrow> take 1 (drop 2 entries) = [''hwmon'' @ show_nat M])
      \<and> i < 2147483648 \<and> M < 2147483648)"

text \<open>The quotient of two integers rounded towards zero.\<close>

definition truncated_quotient :: "int \<Rightarrow> int \<Rightarrow> int" where
  "truncated_quotient a b =
     (if (a < 0) = (b < 0) then \<bar>a\<bar> div \<bar>b\<bar> else - (\<bar>a\<bar> div \<bar>b\<bar>))"

section \<open>Test inputs\<close>

text \<open>
  A file system given by its files and directories; every other path fails with
  \<^verbatim>\<open>ENOENT\<close> (2).
\<close>

definition mk_fs :: "(string \<times> string) list \<Rightarrow> (string \<times> string list) list \<Rightarrow> filesys" where
  "mk_fs files dirs =
     \<lparr>fopen_r = (\<lambda>path. case map_of files path of None \<Rightarrow> Inl 2 | Some c \<Rightarrow> Inr c),
      opendir_r = (\<lambda>path. case map_of dirs path of None \<Rightarrow> Inl 2 | Some es \<Rightarrow> Inr es)\<rparr>"

text \<open>
  A process at its start: nothing printed, no call made, and 1021 descriptors free
  (the usual limit of 1024 less the three standard streams).
\<close>

definition p_init :: proc where
  "p_init = \<lparr>errno = 0, stdout = [], calls = [], fd_free = 1021\<rparr>"

definition u_zero :: uninit where
  "u_zero = \<lparr>u_filename = [], u_pmbus_value = 0, u_device_name = [], u_reg_label = []\<rparr>"

text \<open>
  The spec's scenario A: \<^verbatim>\<open>hwmon3\<close> is bound to the driver \<^verbatim>\<open>irps5401\<close> at
  \<^verbatim>\<open>6-0043\<close>, \<^verbatim>\<open>temp1_label\<close> holds \<^verbatim>\<open>temp1\<close> and \<^verbatim>\<open>temp1_input\<close>
  holds \<^verbatim>\<open>45000\<close>.
\<close>

definition fs_scenario_A :: filesys where
  "fs_scenario_A = mk_fs
     [(''/sys/class/hwmon/hwmon3/device/driver/6-0043/name'', ''irps5401'' @ NL),
      (''/sys/class/hwmon/hwmon3/temp1_label'', ''temp1'' @ NL),
      (''/sys/class/hwmon/hwmon3/temp1_input'', ''45000'' @ NL)]
     [(''/sys/class/hwmon'', [''.'', ''..'', ''hwmon0'', ''hwmon1'', ''hwmon2'', ''hwmon3'']),
      (''/sys/class/hwmon/hwmon3/device/driver/6-0043/hwmon'', [''.'', ''..'', ''hwmon3'']),
      (''/sys/class/hwmon/hwmon3'', [''.'', ''..'', ''name'', ''temp1_input'', ''temp1_label''])]"

definition rail_A :: pmbus_info where
  "rail_A = row ''irps5401'' ''6-0043'' [] ''temp1'' ''Temperature'' ''C'' 1000"

text \<open>A class directory that opens and lists no device.\<close>

definition fs_no_devices :: filesys where
  "fs_no_devices = mk_fs [] [(''/sys/class/hwmon'', [''.'', ''..''])]"

text \<open>
  The spec's scenario B: the only hwmon instance is bound to \<^verbatim>\<open>ir38060\<close> at
  \<^verbatim>\<open>6-0045\<close>, and nothing is bound at \<^verbatim>\<open>6-0043\<close>. The table asks for a rail at
  \<^verbatim>\<open>6-0043\<close> first and for one at \<^verbatim>\<open>6-0045\<close> next.
\<close>

definition fs_scenario_B :: filesys where
  "fs_scenario_B = mk_fs
     [(''/sys/class/hwmon/hwmon0/device/driver/6-0045/name'', ''ir38060'' @ NL),
      (''/sys/class/hwmon/hwmon0/temp1_input'', ''38000'' @ NL)]
     [(''/sys/class/hwmon'', [''.'', ''..'', ''hwmon0'']),
      (''/sys/class/hwmon/hwmon0/device/driver/6-0045/hwmon'', [''.'', ''..'', ''hwmon0'']),
      (''/sys/class/hwmon/hwmon0'', [''.'', ''..'', ''name'', ''temp1_input''])]"

definition table_B :: "pmbus_info list" where
  "table_B =
     [rail_A,
      row ''ir38060'' ''6-0045'' ''temp1_input'' ''temp1'' ''Temperature'' ''C'' 1000,
      sentinel]"

text \<open>
  Two chips of one driver: \<^verbatim>\<open>hwmon0\<close> is the \<^verbatim>\<open>irps5401\<close> at \<^verbatim>\<open>6-0043\<close> and
  \<^verbatim>\<open>hwmon1\<close> the one at \<^verbatim>\<open>6-0044\<close>, so the driver directory reached from either
  lists both addresses. The chip at \<^verbatim>\<open>6-0043\<close> has the labels \<^verbatim>\<open>pout1\<close> and
  \<^verbatim>\<open>pout2\<close> and no \<^verbatim>\<open>pout5\<close>.
\<close>

definition fs_two_chips :: filesys where
  "fs_two_chips = mk_fs
     [(''/sys/class/hwmon/hwmon0/device/driver/6-0043/name'', ''irps5401'' @ NL),
      (''/sys/class/hwmon/hwmon0/device/driver/6-0044/name'', ''irps5401'' @ NL),
      (''/sys/class/hwmon/hwmon1/device/driver/6-0043/name'', ''irps5401'' @ NL),
      (''/sys/class/hwmon/hwmon1/device/driver/6-0044/name'', ''irps5401'' @ NL),
      (''/sys/class/hwmon/hwmon0/power1_label'', ''pout1'' @ NL),
      (''/sys/class/hwmon/hwmon0/power1_input'', ''1250000'' @ NL),
      (''/sys/class/hwmon/hwmon0/power2_label'', ''pout2'' @ NL),
      (''/sys/class/hwmon/hwmon0/power2_input'', ''730000'' @ NL)]
     [(''/sys/class/hwmon'', [''.'', ''..'', ''hwmon0'', ''hwmon1'']),
      (''/sys/class/hwmon/hwmon0/device/driver/6-0043/hwmon'', [''.'', ''..'', ''hwmon0'']),
      (''/sys/class/hwmon/hwmon1/device/driver/6-0043/hwmon'', [''.'', ''..'', ''hwmon0'']),
      (''/sys/class/hwmon/hwmon0/device/driver/6-0044/hwmon'', [''.'', ''..'', ''hwmon1'']),
      (''/sys/class/hwmon/hwmon1/device/driver/6-0044/hwmon'', [''.'', ''..'', ''hwmon1'']),
      (''/sys/class/hwmon/hwmon0'',
       [''.'', ''..'', ''name'', ''power1_input'', ''power1_label'', ''power2_input'',
        ''power2_label''])]"

text \<open>The ninth row of \<^verbatim>\<open>pmbus_ultra96v2\<close>.\<close>

definition rail_pout5 :: pmbus_info where
  "rail_pout5 = row ''irps5401'' ''6-0043'' [] ''pout5'' ''    3.3V DP'' ''mW'' 1000"

text \<open>
  The last row of \<^verbatim>\<open>pmbus_ultra96v2\<close>, whose attribute is given: the temperature
  of the chip at \<^verbatim>\<open>6-0044\<close>.
\<close>

definition rail_6_0044 :: pmbus_info where
  "rail_6_0044 = row ''irps5401'' ''6-0044'' ''temp1_input'' ''temp1'' ''Temperature'' ''C'' 1000"




text \<open>The text printed, and its lines.\<close>

fun out_text :: "out list \<Rightarrow> string" where
  "out_text [] = []"
| "out_text (Std s # rest) = s @ out_text rest"
| "out_text (Verb s # rest) = s @ out_text rest"

fun lines_from :: "string \<Rightarrow> string \<Rightarrow> string list" where
  "lines_from cur [] = (if cur = [] then [] else [cur])"
| "lines_from cur (c # cs) =
     (if c = CHR 0x0A then cur # lines_from [] cs else lines_from (cur @ [c]) cs)"

definition report_lines :: "(unit outcome \<times> pmbus_info list \<times> proc) option \<Rightarrow> string list" where
  "report_lines res =
     (case res of None \<Rightarrow> [] | Some (r, t, q) \<Rightarrow> lines_from [] (out_text (stdout q)))"

text \<open>
  A file system with a chip of the Ultra96-V2 table (\<^verbatim>\<open>ir38060\<close> at \<^verbatim>\<open>6-0045\<close>)
  and one of the UltraZed-7EV table (\<^verbatim>\<open>irps5401\<close> at \<^verbatim>\<open>6-0049\<close>), and the
  tables cut down to the temperature rows of these two chips.
\<close>

definition fs_two_boards :: filesys where
  "fs_two_boards = mk_fs
     [(''/sys/class/hwmon/hwmon0/device/driver/6-0045/name'', ''ir38060'' @ NL),
      (''/sys/class/hwmon/hwmon0/temp1_input'', ''38000'' @ NL),
      (''/sys/class/hwmon/hwmon1/device/driver/6-0049/name'', ''irps5401'' @ NL),
      (''/sys/class/hwmon/hwmon1/temp1_input'', ''41500'' @ NL)]
     [(''/sys/class/hwmon'', [''.'', ''..'', ''hwmon0'', ''hwmon1'']),
      (''/sys/class/hwmon/hwmon0/device/driver/6-0045/hwmon'', [''.'', ''..'', ''hwmon0'']),
      (''/sys/class/hwmon/hwmon1/device/driver/6-0049/hwmon'', [''.'', ''..'', ''hwmon1''])]"

definition tables_cut :: tables where
  "tables_cut =
     \<lparr>ultra96v2 = [pmbus_ultra96v2 ! 3, sentinel],
      uz7ev_evcc = [pmbus_uz7ev_evcc ! 11, sentinel],
      uz3eg_xxx = pmbus_uz3eg_xxx\<rparr>"

text \<open>
  A board that has only a chip of the UltraZed-7EV table, the \<^verbatim>\<open>irps5401\<close> at
  \<^verbatim>\<open>6-0049\<close>.
\<close>

definition fs_uz7ev_chip :: filesys where
  "fs_uz7ev_chip = mk_fs
     [(''/sys/class/hwmon/hwmon0/device/driver/6-0049/name'', ''irps5401'' @ NL),
      (''/sys/class/hwmon/hwmon0/temp1_input'', ''41500'' @ NL)]
     [(''/sys/class/hwmon'', [''.'', ''..'', ''hwmon0'']),
      (''/sys/class/hwmon/hwmon0/device/driver/6-0049/hwmon'', [''.'', ''..'', ''hwmon0''])]"

section \<open>Properties\<close>

text \<open>Unfolding these evaluates the model on a concrete input.\<close>

lemmas eval_defs =
  print_pmbus_info_def get_pmbus_device_filename_def count_hwmon_reg_devices_def
  loop_body_def select_channel_def fopen_def fclose_def opendir_def closedir_def
  printf_def vprintf_def hwmon_loop.simps scanf_s_def scanf_d_def scanf_ld_def scan_s_def
  scan_d_def scan_ld_def scan_int_def strtol_clamp_def low32_def low64_def isspace_def
  isdigit_def digit_val_def digit_char_def show_int_def show_nat.simps c_div_def row_def
  sentinel_def mk_fs_def p_init_def u_zero_def Let_def

subsection \<open>The scalar reader\<close>

lemma read_sysfs_entry_never_closes:
  "fopen_r fs path = Inr contents \<Longrightarrow> 0 < fd_free p \<Longrightarrow>
   calls (snd (snd (read_sysfs_entry fs path v p))) = calls p @ [Fopen Sysfs_entry path]
   \<and> Suc (fd_free (snd (snd (read_sysfs_entry fs path v p)))) = fd_free p"
  by (simp add: read_sysfs_entry_def fopen_def)

text \<open>
  Claim C2 says that \<^verbatim>\<open>read_sysfs_entry\<close> releases the stream it opened on every
  exit path. The code has no \<^verbatim>\<open>fclose\<close>: reading the existing file
  \<^verbatim>\<open>temp1_input\<close> of scenario A returns 0 with the value read, and the stream is
  still open on return. (When \<^verbatim>\<open>fopen\<close> fails there is no stream to release.)
\<close>

theorem C2_read_sysfs_entry_leaves_stream_open:
  "fst (read_sysfs_entry fs_scenario_A ''/sys/class/hwmon/hwmon3/temp1_input'' [] p_init) = 0
   \<and> fst (snd (read_sysfs_entry fs_scenario_A ''/sys/class/hwmon/hwmon3/temp1_input'' []
               p_init)) = ''45000''
   \<and> open_files
        (calls (snd (snd (read_sysfs_entry fs_scenario_A
                            ''/sys/class/hwmon/hwmon3/temp1_input'' [] p_init)))) []
      = [''/sys/class/hwmon/hwmon3/temp1_input'']"
  by (simp add: read_sysfs_entry_def fs_scenario_A_def eval_defs)

subsection \<open>The enumerator\<close>

lemma count_entries_none:
  "\<forall>d \<in> set entries. \<not> strstr d ''hwmon'' \<Longrightarrow> count_entries entries n = n"
  by (induction entries arbitrary: n) auto

text \<open>
  Claim C7: when the class directory cannot be opened, because the file system
  refuses it or because no descriptor is free, \<^verbatim>\<open>count_hwmon_reg_devices\<close>
  returns \<^verbatim>\<open>errno\<close>, which \<^verbatim>\<open>opendir\<close> has set to a positive error number
  (the one of the file system, or \<^verbatim>\<open>EMFILE\<close>); when the directory opens and no
  entry name contains \<^verbatim>\<open>hwmon\<close> it returns 0. The two results differ.
\<close>

theorem C7_open_failure_differs_from_zero_devices:
  assumes "fst (opendir fs Class_dir ''/sys/class/hwmon'' p) = None"
    and "\<forall>e. opendir_r fs ''/sys/class/hwmon'' = Inl e \<longrightarrow> 0 < e"
    and "fst (opendir fs' Class_dir ''/sys/class/hwmon'' p') = Some entries"
    and "\<forall>d \<in> set entries. \<not> strstr d ''hwmon''"
  shows "fst (count_hwmon_reg_devices fs p)
           = errno (snd (opendir fs Class_dir ''/sys/class/hwmon'' p))
       \<and> (fd_free p = 0 \<longrightarrow> fst (count_hwmon_reg_devices fs p) = EMFILE)
       \<and> (0 < fd_free p \<longrightarrow>
            opendir_r fs ''/sys/class/hwmon'' = Inl (fst (count_hwmon_reg_devices fs p)))
       \<and> 0 < fst (count_hwmon_reg_devices fs p)
       \<and> fst (count_hwmon_reg_devices fs' p') = 0
       \<and> fst (count_hwmon_reg_devices fs p) \<noteq> fst (count_hwmon_reg_devices fs' p')"
  using assms
  by (auto simp: count_hwmon_reg_devices_def opendir_def printf_def count_entries_none
           split: if_splits sum.splits)

theorem C7_witness:
  "fst (count_hwmon_reg_devices (mk_fs [] []) p_init) = 2
   \<and> fst (count_hwmon_reg_devices fs_no_devices (p_init\<lparr>fd_free := 0\<rparr>)) = EMFILE
   \<and> fst (count_hwmon_reg_devices fs_no_devices p_init) = 0
   \<and> fst (count_hwmon_reg_devices (mk_fs [] []) p_init)
       \<noteq> fst (count_hwmon_reg_devices fs_no_devices p_init)
   \<and> fst (count_hwmon_reg_devices fs_no_devices (p_init\<lparr>fd_free := 0\<rparr>))
       \<noteq> fst (count_hwmon_reg_devices fs_no_devices p_init)"
  using C7_open_failure_differs_from_zero_devices
          [of "mk_fs [] []" p_init fs_no_devices p_init "[''.'', ''..'']"]
        C7_open_failure_differs_from_zero_devices
          [of fs_no_devices "p_init\<lparr>fd_free := 0\<rparr>" fs_no_devices p_init "[''.'', ''..'']"]
  by (simp add: mk_fs_def fs_no_devices_def opendir_def p_init_def)

text \<open>
  The error value is a number like any count: a failure with \<^verbatim>\<open>ENOENT\<close> returns
  what a directory with two devices returns.
\<close>

lemma count_failure_looks_like_a_count:
  "fst (count_hwmon_reg_devices (mk_fs [] []) p_init)
   = fst (count_hwmon_reg_devices
            (mk_fs [] [(''/sys/class/hwmon'', [''.'', ''..'', ''hwmon0'', ''hwmon1''])]) p_init)"
  by (simp add: eval_defs)

subsection \<open>The report driver on an unknown board\<close>

text \<open>
  Claim C8: when the host name read from the \<^verbatim>\<open>hostname\<close> command contains none of
  \<^verbatim>\<open>u96v2\<close>, \<^verbatim>\<open>uz7ev\<close>, \<^verbatim>\<open>uz3eg\<close>, \<^verbatim>\<open>print_power_utilization\<close> returns 0,
  leaves the tables as they are, makes no library call on the file system and prints
  nothing but, in verbose mode, the host name it read.
\<close>

theorem C8_unknown_board_empty_report:
  assumes "hostname = (case read_hostname hostname_cmd of None \<Rightarrow> [] | Some line \<Rightarrow> line)"
    and "\<not> strstr hostname ''u96v2''" and "\<not> strstr hostname ''uz7ev''"
    and "\<not> strstr hostname ''uz3eg''"
  shows "print_power_utilization verbose_flag fs u hostname_cmd g p =
           Some (Returned 0, g,
                 (case read_hostname hostname_cmd of
                    None \<Rightarrow> p
                  | Some line \<Rightarrow> vprintf verbose_flag (''hostname='' @ line @ NL) p))"
  using assms by (simp add: print_power_utilization_def)

theorem C8_witness:
  "print_power_utilization False fs_scenario_A u_zero (Some (''zcu102'' @ NL)) initial_tables
     p_init = Some (Returned 0, initial_tables, p_init)"
  using C8_unknown_board_empty_report
          [of "''zcu102'' @ NL" "Some (''zcu102'' @ NL)" False fs_scenario_A u_zero
              initial_tables p_init]
  by (simp add: read_hostname_def fgets_def vprintf_def)

subsection \<open>The process state under the library calls\<close>

lemma proc_simps [simp]:
  "calls (printf s p) = calls p" "errno (printf s p) = errno p"
  "stdout (printf s p) = stdout p @ [Std s]" "fd_free (printf s p) = fd_free p"
  "calls (vprintf v s p) = calls p" "errno (vprintf v s p) = errno p"
  "stdout (vprintf v s p) = stdout p @ (if v then [Verb s] else [])"
  "fd_free (vprintf v s p) = fd_free p"
  "calls (fclose path p) = calls p @ [Fclose path]" "errno (fclose path p) = errno p"
  "stdout (fclose path p) = stdout p" "fd_free (fclose path p) = Suc (fd_free p)"
  "calls (closedir path p) = calls p @ [Closedir path]" "errno (closedir path p) = errno p"
  "stdout (closedir path p) = stdout p" "fd_free (closedir path p) = Suc (fd_free p)"
  by (simp_all add: printf_def vprintf_def fclose_def closedir_def)

lemma drop_Cons_length: "drop n xs = y # ys \<Longrightarrow> \<not> length xs \<le> n"
  by auto

subsection \<open>The bounded loop and the loop\<close>

lemma hwmon_loop_n_sound:
  "hwmon_loop_n k v fs pInfo n l p = Some r \<Longrightarrow> hwmon_loop v fs pInfo n l p = Some r"
proof (induction k arbitrary: l p)
  case 0
  then show ?case by simp
next
  case (Suc k)
  show ?case
  proof (cases "loop_body v fs pInfo l p")
    case (Continue l' p')
    with Suc show ?thesis
      by (subst hwmon_loop.simps) (auto split: if_splits)
  next
    case (Return x fname pInfo' p')
    with Suc.prems show ?thesis
      by (subst hwmon_loop.simps) (auto split: if_splits)
  qed
qed

lemma hwmon_loop_n_complete:
  "hwmon_loop v fs pInfo n l p = Some r \<Longrightarrow> \<exists>k. hwmon_loop_n k v fs pInfo n l p = Some r"
proof (induction rule: hwmon_loop.raw_induct[rotated, consumes 1, case_names step])
  case (step loop' v fs pInfo n l p r)
  show ?case
  proof (cases "hwmon_id l < n")
    case False
    with step(2) have "hwmon_loop_n (Suc 0) v fs pInfo n l p = Some r" by simp
    then show ?thesis by blast
  next
    case True
    show ?thesis
    proof (cases "loop_body v fs pInfo l p")
      case (Continue l' p')
      show ?thesis
      proof (cases "hwmon_id l' = INT_MAX")
        case True
        with \<open>hwmon_id l < n\<close> Continue step(2)
        have "hwmon_loop_n (Suc 0) v fs pInfo n l p = Some r" by simp
        then show ?thesis by blast
      next
        case False
        with \<open>hwmon_id l < n\<close> Continue step(2)
        have "loop' v fs pInfo n (l'\<lparr>hwmon_id := hwmon_id l' + 1\<rparr>) p' = Some r"
          by simp
        from step(1)[OF this] obtain k where
          "hwmon_loop_n k v fs pInfo n (l'\<lparr>hwmon_id := hwmon_id l' + 1\<rparr>) p' = Some r" by blast
        with \<open>hwmon_id l < n\<close> Continue False
        have "hwmon_loop_n (Suc k) v fs pInfo n l p = Some r" by simp
        then show ?thesis by blast
      qed
    next
      case (Return x fname pInfo' p')
      with True step(2) have "hwmon_loop_n (Suc 0) v fs pInfo n l p = Some r" by simp
      then show ?thesis by blast
    qed
  qed
qed

lemma hwmon_loop_iff:
  "hwmon_loop v fs pInfo n l p = Some r \<longleftrightarrow> (\<exists>k. hwmon_loop_n k v fs pInfo n l p = Some r)"
  using hwmon_loop_n_sound hwmon_loop_n_complete by blast

subsection \<open>The descriptors taken and given back\<close>

lemma fopen_Some:
  "fopen fs k path p = (Some c, p') \<Longrightarrow>
   fopen_r fs path = Inr c \<and> 0 < fd_free p \<and> Suc (fd_free p') = fd_free p
   \<and> p' = p\<lparr>calls := calls p @ [Fopen k path], fd_free := fd_free p - 1\<rparr>"
  by (auto simp: fopen_def split: if_splits sum.splits)

lemma fopen_None:
  "fopen fs k path p = (None, p') \<Longrightarrow>
   fd_free p' = fd_free p \<and> calls p' = calls p @ [Fopen_failed k path]
   \<and> stdout p' = stdout p"
  by (auto simp: fopen_def split: if_splits sum.splits)

lemma opendir_Some:
  "opendir fs k path p = (Some es, p') \<Longrightarrow>
   opendir_r fs path = Inr es \<and> 0 < fd_free p \<and> Suc (fd_free p') = fd_free p
   \<and> p' = p\<lparr>calls := calls p @ [Opendir k path], fd_free := fd_free p - 1\<rparr>"
  by (auto simp: opendir_def split: if_splits sum.splits)

lemma opendir_None:
  "opendir fs k path p = (None, p') \<Longrightarrow>
   fd_free p' = fd_free p \<and> calls p' = calls p @ [Opendir_failed k path]
   \<and> stdout p' = stdout p"
  by (auto simp: opendir_def split: if_splits sum.splits)

lemma fopen_no_descriptor:
  "fd_free p = 0 \<Longrightarrow>
   fopen fs k path p = (None, p\<lparr>errno := EMFILE, calls := calls p @ [Fopen_failed k path]\<rparr>)"
  by (simp add: fopen_def)

lemma opendir_no_descriptor:
  "fd_free p = 0 \<Longrightarrow>
   opendir fs k path p
     = (None, p\<lparr>errno := EMFILE, calls := calls p @ [Opendir_failed k path]\<rparr>)"
  by (simp add: opendir_def)

lemma fopen_with_descriptor:
  "0 < fd_free p \<Longrightarrow>
   fopen fs k path p =
     (case fopen_r fs path of
        Inl e \<Rightarrow> (None, p\<lparr>errno := e, calls := calls p @ [Fopen_failed k path]\<rparr>)
      | Inr contents \<Rightarrow>
          (Some contents, p\<lparr>calls := calls p @ [Fopen k path], fd_free := fd_free p - 1\<rparr>))"
  by (simp add: fopen_def)

lemma opendir_with_descriptor:
  "0 < fd_free p \<Longrightarrow>
   opendir fs k path p =
     (case opendir_r fs path of
        Inl e \<Rightarrow> (None, p\<lparr>errno := e, calls := calls p @ [Opendir_failed k path]\<rparr>)
      | Inr entries \<Rightarrow>
          (Some entries, p\<lparr>calls := calls p @ [Opendir k path], fd_free := fd_free p - 1\<rparr>))"
  by (simp add: opendir_def)

text \<open>The label scan gives back every descriptor it takes.\<close>

lemma label_scan_fd:
  "case label_scan v fs d ids es F rl p of
     Matched reg F' p' \<Rightarrow> fd_free p' = fd_free p \<and> 0 < fd_free p
   | No_match F' rl' p' \<Rightarrow> fd_free p' = fd_free p"
proof (induction es arbitrary: F rl p)
  case Nil
  show ?case by simp
next
  case (Cons e es)
  show ?case
  proof (cases "strstr e ''label''")
    case False
    with Cons show ?thesis by simp
  next
    case True
    obtain c p1 where fo: "fopen fs Label_file (''/sys/class/hwmon/hwmon'' @ ids @ ''/'' @ e) p
        = (c, p1)" by force
    show ?thesis
    proof (cases c)
      case None
      with fo have fd: "fd_free p1 = fd_free p" by (simp add: fopen_None)
      from Cons[where F = "''/sys/class/hwmon/hwmon'' @ ids @ ''/'' @ e" and rl = rl
                  and p = "printf (''unable to open '' @ ''/sys/class/hwmon/hwmon'' @ ids
                                   @ ''/'' @ e @ NL) p1"]
        True fo None fd
      show ?thesis by (simp split: scan.splits)
    next
      case (Some contents)
      with fo have fd: "0 < fd_free p" "Suc (fd_free p1) = fd_free p"
        using fopen_Some by blast+
      from Cons[where F = "''/sys/class/hwmon/hwmon'' @ ids @ ''/'' @ e"
                  and rl = "scanf_s contents rl"
                  and p = "fclose (''/sys/class/hwmon/hwmon'' @ ids @ ''/'' @ e) p1"]
        True fo Some fd
      show ?thesis by (simp split: scan.splits)
    qed
  qed
qed


lemma label_scan_No_match_fd:
  "label_scan v fs d ids es F rl p = No_match F' rl' p' \<Longrightarrow> fd_free p' = fd_free p"
  using label_scan_fd[where v = v and fs = fs and d = d and ids = ids and es = es
          and F = F and rl = rl and p = p]
  by simp

subsection \<open>What one iteration of the resolver's loop does\<close>

lemma label_scan_matched:
  "label_scan v fs d ids es F rl p = Matched reg F' p' \<Longrightarrow>
   F' = ''/sys/class/hwmon/hwmon'' @ ids @ ''/'' @ reg \<and> reg \<noteq> []"
  by (induction es arbitrary: F rl p) (auto split: if_splits prod.splits option.splits)

lemma select_channel_return:
  "select_channel v fs d l d_name p = Return x F d' q \<Longrightarrow>
   d' = d\<lparr>name := name d'\<rparr> \<and> x \<noteq> Overflow
   \<and> (name d \<noteq> [] \<longrightarrow> d' = d \<and> label_calls q = label_calls p)
   \<and> (\<forall>M. x = Found M \<longrightarrow>
         F = ''/sys/class/hwmon/hwmon'' @ show_int M @ ''/'' @ name d' \<and> name d' \<noteq> []
         \<and> M = scanf_d (drop 5 d_name) (hwmon_id l))"
  by (auto simp: select_channel_def Let_def label_calls_def
           split: if_splits prod.splits option.splits scan.splits dest: label_scan_matched)

lemma select_channel_continue:
  assumes "select_channel v fs d l d_name p = Continue l' p'"
  shows "name d = [] \<and> device_name l' = device_name l \<and> fd_free p' = fd_free p"
proof -
  let ?dir = "''/sys/class/hwmon/hwmon'' @ show_int (scanf_d (drop 5 d_name) (hwmon_id l))"
  let ?p = "vprintf v (TAB @ ''Searching for name that matches label '' @ label d @ NL) p"
  from assms have nm: "name d = []"
    by (auto simp: select_channel_def Let_def split: if_splits)
  obtain r p1 where od: "opendir fs Label_dir ?dir ?p = (r, p1)" by force
  with assms nm obtain entries where r: "r = Some entries"
    by (cases r) (auto simp: select_channel_def Let_def)
  from od r have fd1: "Suc (fd_free p1) = fd_free p"
    using opendir_Some[of fs Label_dir ?dir ?p entries p1] by simp
  from assms nm od r obtain F rl p2 where
    sc: "label_scan v fs d (show_int (scanf_d (drop 5 d_name) (hwmon_id l))) entries ?dir
           (reg_label l) p1 = No_match F rl p2"
    and l': "l' = l\<lparr>hwmon_id := scanf_d (drop 5 d_name) (hwmon_id l), filename := F,
                     reg_label := rl\<rparr>"
    and p': "p' = closedir ?dir p2"
    by (auto simp: select_channel_def Let_def split: scan.splits)
  from label_scan_No_match_fd[OF sc] fd1 p' l' nm show ?thesis by simp
qed

lemma loop_body_return:
  "loop_body v fs d l p = Return x F d' q \<Longrightarrow>
   d' = d\<lparr>name := name d'\<rparr> \<and> x \<noteq> Overflow
   \<and> (name d \<noteq> [] \<longrightarrow> d' = d \<and> label_calls q = label_calls p)
   \<and> (\<forall>M. x = Found M \<longrightarrow>
         F = ''/sys/class/hwmon/hwmon'' @ show_int M @ ''/'' @ name d' \<and> name d' \<noteq> []
         \<and> bound_hwmon fs (address d) (hwmon_id l) = Some M)"
  apply (clarsimp simp: loop_body_def Let_def fopen_def opendir_def label_calls_def
      bound_hwmon_def split: sum.splits if_splits list.splits)
  apply (drule select_channel_return)
  apply (clarsimp simp: label_calls_def dest!: drop_Cons_length)
  done

text \<open>
  An iteration that goes on has either left \<^verbatim>\<open>hwmon_id\<close> and the descriptors as
  they were, or it has left open the directory of line 1807, which nothing closes.
\<close>

lemma loop_body_continue:
  assumes "loop_body v fs d l p = Continue l' p'"
  shows "(name d \<noteq> [] \<longrightarrow> hwmon_id l' = hwmon_id l \<and> label_calls p' = label_calls p)
       \<and> ((hwmon_id l' = hwmon_id l \<and> fd_free p' = fd_free p)
           \<or> (name d = [] \<and> Suc (fd_free p') = fd_free p))"
proof -
  let ?np = "''/sys/class/hwmon/hwmon'' @ show_int (hwmon_id l) @ ''/device/driver/''
             @ address d @ ''/name''"
  let ?hp = "''/sys/class/hwmon/hwmon'' @ show_int (hwmon_id l) @ ''/device/driver/''
             @ address d @ ''/hwmon''"
  obtain r p1 where fo: "fopen fs Driver_name ?np p = (r, p1)" by force
  show ?thesis
  proof (cases r)
    case None
    with fo assms have "l' = l\<lparr>filename := ?np\<rparr>" "p' = p1"
      by (simp_all add: loop_body_def Let_def)
    with fo None fopen_None[of fs Driver_name ?np p p1] show ?thesis
      by (simp add: label_calls_def)
  next
    case (Some contents)
    note opened = this
    with fo have fd1: "Suc (fd_free p1) = fd_free p"
      and c1: "calls p1 = calls p @ [Fopen Driver_name ?np]"
      using fopen_Some[of fs Driver_name ?np p contents p1] by simp_all
    let ?dn = "scanf_s contents (device_name l)"
    let ?p2 = "vprintf v (TAB @ ?np @ '' => '' @ ?dn @ NL) (fclose ?np p1)"
    have fd2: "fd_free ?p2 = fd_free p" using fd1 by simp
    have lc2: "label_calls ?p2 = label_calls p" using c1 by (simp add: label_calls_def)
    show ?thesis
    proof (cases "device d = ?dn")
      case False
      with fo opened assms have "l' = l\<lparr>filename := ?np, device_name := ?dn\<rparr>" "p' = ?p2"
        by (simp_all add: loop_body_def Let_def)
      with fd2 lc2 show ?thesis by simp
    next
      case True
      obtain r2 p3 where od: "opendir fs Driver_hwmon ?hp ?p2 = (r2, p3)" by force
      with fo opened True assms obtain entries where r2: "r2 = Some entries"
        by (cases r2) (auto simp: loop_body_def Let_def)
      from od r2 have fd3: "Suc (fd_free p3) = fd_free p"
        and c3: "calls p3 = calls ?p2 @ [Opendir Driver_hwmon ?hp]"
        using opendir_Some[of fs Driver_hwmon ?hp ?p2 entries p3] fd2 by simp_all
      from fo opened True od r2 assms obtain d_name later where
        "drop 2 entries = d_name # later"
        by (cases "drop 2 entries") (auto simp: loop_body_def Let_def)
      with fo opened True od r2 assms
      have sc: "select_channel v fs d (l\<lparr>filename := ?hp, device_name := ?dn\<rparr>) d_name
                  (vprintf v (TAB @ ?hp @ '' => '' @ d_name @ NL) p3) = Continue l' p'"
        by (simp add: loop_body_def Let_def)
      from select_channel_continue[OF sc] fd3 show ?thesis by simp
    qed
  qed
qed

subsection \<open>What the resolver returns\<close>

lemma hwmon_loop_n_result:
  "hwmon_loop_n k v fs d n l p = Some (x, F, d', q) \<Longrightarrow>
   d' = d\<lparr>name := name d'\<rparr>
   \<and> (name d \<noteq> [] \<longrightarrow> d' = d \<and> label_calls q = label_calls p)
   \<and> (\<forall>M. x = Found M \<longrightarrow>
         F = ''/sys/class/hwmon/hwmon'' @ show_int M @ ''/'' @ name d' \<and> name d' \<noteq> []
         \<and> (\<exists>i. bound_hwmon fs (address d) i = Some M))"
proof (induction k arbitrary: l p)
  case 0
  then show ?case by simp
next
  case (Suc k)
  show ?case
  proof (cases "hwmon_id l < n")
    case False
    with Suc.prems show ?thesis by auto
  next
    case True
    show ?thesis
    proof (cases "loop_body v fs d l p")
      case (Continue l' p')
      from loop_body_continue[OF Continue]
      have lc: "name d \<noteq> [] \<longrightarrow> label_calls p' = label_calls p" by simp
      show ?thesis
      proof (cases "hwmon_id l' = INT_MAX")
        case over: True
        with True Continue Suc.prems lc show ?thesis by auto
      next
        case False
        with True Continue Suc.prems
        have run: "hwmon_loop_n k v fs d n (l'\<lparr>hwmon_id := hwmon_id l' + 1\<rparr>) p'
            = Some (x, F, d', q)"
          by simp
        with Suc.IH[OF run] lc show ?thesis by simp
      qed
    next
      case (Return x' F' d'' q')
      with True Suc.prems have "x' = x" "F' = F" "d'' = d'" "q' = q" by simp_all
      with loop_body_return[OF Return] show ?thesis by blast
    qed
  qed
qed

lemma hwmon_loop_result:
  "hwmon_loop v fs d n l p = Some (x, F, d', q) \<Longrightarrow>
   d' = d\<lparr>name := name d'\<rparr>
   \<and> (name d \<noteq> [] \<longrightarrow> d' = d \<and> label_calls q = label_calls p)
   \<and> (\<forall>M. x = Found M \<longrightarrow>
         F = ''/sys/class/hwmon/hwmon'' @ show_int M @ ''/'' @ name d' \<and> name d' \<noteq> []
         \<and> (\<exists>i. bound_hwmon fs (address d) i = Some M))"
  using hwmon_loop_n_complete hwmon_loop_n_result by blast

text \<open>
  The loop ends. An iteration that goes on either leaves \<^verbatim>\<open>hwmon_id\<close> as it was,
  so that the increment brings it nearer to \<^verbatim>\<open>num_hwmon_devices\<close>, or it has
  used up a descriptor, and that happens only as long as one is free.
\<close>

lemma hwmon_loop_returns: "\<exists>r. hwmon_loop v fs d n l p = Some r"
  using wf_lex_prod[OF wf_less_than wf_less_than]
proof (induction "(fd_free p, nat (n - hwmon_id l))" arbitrary: l p rule: wf_induct_rule)
  case less
  show ?case
  proof (cases "hwmon_id l < n")
    case False
    then have "hwmon_loop v fs d n l p = Some (Not_found, filename l, d, p)"
      by (subst hwmon_loop.simps) simp
    then show ?thesis by blast
  next
    case True
    show ?thesis
    proof (cases "loop_body v fs d l p")
      case (Return x F d' q)
      with True have "hwmon_loop v fs d n l p = Some (x, F, d', q)"
        by (subst hwmon_loop.simps) simp
      then show ?thesis by blast
    next
      case (Continue l' p')
      show ?thesis
      proof (cases "hwmon_id l' = INT_MAX")
        case over: True
        with \<open>hwmon_id l < n\<close> Continue
        have "hwmon_loop v fs d n l p = Some (Overflow, filename l', d, p')"
          by (subst hwmon_loop.simps) simp
        then show ?thesis by blast
      next
        case False
        from loop_body_continue[OF Continue]
        have "(hwmon_id l' = hwmon_id l \<and> fd_free p' = fd_free p)
              \<or> Suc (fd_free p') = fd_free p" by blast
        with True
        have "((fd_free p', nat (n - hwmon_id (l'\<lparr>hwmon_id := hwmon_id l' + 1\<rparr>))),
               (fd_free p, nat (n - hwmon_id l))) \<in> less_than <*lex*> less_than"
          by auto
        from less[OF this]
        obtain r where "hwmon_loop v fs d n (l'\<lparr>hwmon_id := hwmon_id l' + 1\<rparr>) p' = Some r"
          by blast
        with True Continue False have "hwmon_loop v fs d n l p = Some r"
          by (subst hwmon_loop.simps) simp
        then show ?thesis by blast
      qed
    qed
  qed
qed

lemma count_label_calls:
  "label_calls (snd (count_hwmon_reg_devices fs p)) = label_calls p"
  by (simp add: count_hwmon_reg_devices_def opendir_def label_calls_def split: sum.splits)


lemma resolver_returns: "\<exists>r. get_pmbus_device_filename v fs u d fname p = Some r"
  using hwmon_loop_returns by (simp add: get_pmbus_device_filename_def split: prod.splits)

lemma resolver_result:
  assumes "get_pmbus_device_filename v fs u d fname p = Some (x, F, d', q)"
  shows "d' = d\<lparr>name := name d'\<rparr>
   \<and> (name d \<noteq> [] \<longrightarrow> d' = d \<and> label_calls q = label_calls p)
   \<and> (\<forall>M. x = Found M \<longrightarrow>
         F = ''/sys/class/hwmon/hwmon'' @ show_int M @ ''/'' @ name d' \<and> name d' \<noteq> []
         \<and> (\<exists>i. bound_hwmon fs (address d) i = Some M))"
proof -
  obtain n p1 where c: "count_hwmon_reg_devices fs p = (n, p1)" by force
  with assms have "hwmon_loop v fs d n
      \<lparr>hwmon_id = 0, filename = fname, device_name = u_device_name u,
       reg_label = u_reg_label u\<rparr> p1 = Some (x, F, d', q)"
    by (simp add: get_pmbus_device_filename_def)
  from hwmon_loop_result[OF this] count_label_calls[of fs p] c show ?thesis by simp
qed

text \<open>The reporter returns or crashes, whatever the table and the file system.\<close>

lemma rails_loop_returns: "\<exists>r. rails_loop v fs u i rows fname val p = Some r"
proof (induction rows arbitrary: i fname val p)
  case Nil
  show ?case by simp
next
  case (Cons rail rest)
  show ?case
  proof (cases "device rail = []")
    case True
    then show ?thesis by simp
  next
    case False
    let ?p0 = "vprintf v (''['' @ show_int (int i) @ ''] '' @ device rail @ '','' @ address rail
                 @ '','' @ label rail @ '','' @ name rail @ '','' @ unit rail @ NL) p"
    from resolver_returns[of v fs u rail fname ?p0]
    obtain x F rail' p1 where res: "get_pmbus_device_filename v fs u rail fname ?p0
        = Some (x, F, rail', p1)" by (metis prod_cases4)
    let ?p1 = "vprintf v (TAB @ device rail' @ ''@'' @ address rail' @ ''-'' @ label rail'
                 @ '' => '' @ F @ NL) p1"
    obtain c p2 where fo: "fopen fs Value_file F ?p1 = (c, p2)" by force
    show ?thesis
    proof (cases "x = Overflow")
      case True
      with False res show ?thesis by simp
    next
      case nov: False
      show ?thesis
      proof (cases c)
        case None
        with False res nov fo show ?thesis by simp
      next
        case (Some contents)
        show ?thesis
        proof (cases "c_div (scanf_ld contents val) (division rail')")
          case None
          with False res nov fo Some show ?thesis by simp
        next
          case (Some quot)
          from Cons[of "Suc i" F "scanf_ld contents val"
                  "printf (TAB @ device rail' @ ''@'' @ address rail' @ ''-'' @ label rail'
                           @ '' ('' @ alias rail' @ '') = '' @ show_int quot @ '' ''
                           @ unit rail' @ NL) (fclose F p2)"]
          obtain r where "rails_loop v fs u (Suc i) rest F (scanf_ld contents val)
              (printf (TAB @ device rail' @ ''@'' @ address rail' @ ''-'' @ label rail'
                       @ '' ('' @ alias rail' @ '') = '' @ show_int quot @ '' ''
                       @ unit rail' @ NL) (fclose F p2)) = Some r" by blast
          with False res nov fo \<open>c = Some contents\<close> Some show ?thesis
            by (cases r) simp
        qed
      qed
    qed
  qed
qed

lemma print_pmbus_info_returns: "\<exists>r. print_pmbus_info v fs u pmbus_list p = Some r"
  using rails_loop_returns by (simp add: print_pmbus_info_def)

subsection \<open>Numbers and words as text\<close>

lemma digit_char_props:
  assumes "d < 10"
  shows "isdigit (digit_char d)" "digit_val (digit_char d) = d" "\<not> isspace (digit_char d)"
    "digit_char d \<noteq> CHR ''-''" "digit_char d \<noteq> CHR ''+''"
proof -
  from assms have "d \<in> {0, 1, 2, 3, 4, 5, 6, 7, 8, 9}" by auto
  then show "isdigit (digit_char d)" "digit_val (digit_char d) = d" "\<not> isspace (digit_char d)"
    "digit_char d \<noteq> CHR ''-''" "digit_char d \<noteq> CHR ''+''"
    by (auto simp: digit_char_def isdigit_def digit_val_def isspace_def)
qed

lemma show_nat_digits: "list_all isdigit (show_nat n)"
proof (induction n rule: show_nat.induct)
  case (1 n)
  show ?case
  proof (cases "n < 10")
    case True
    then show ?thesis by (subst show_nat.simps) (simp add: digit_char_props)
  next
    case False
    with 1 show ?thesis by (subst show_nat.simps) (simp add: digit_char_props)
  qed
qed

lemma show_nat_Cons: "\<exists>c cs. show_nat n = c # cs \<and> isdigit c \<and> \<not> isspace c
                              \<and> c \<noteq> CHR ''-'' \<and> c \<noteq> CHR ''+''"
proof (induction n rule: show_nat.induct)
  case (1 n)
  show ?case
  proof (cases "n < 10")
    case True
    then show ?thesis by (subst show_nat.simps) (simp add: digit_char_props)
  next
    case False
    with 1 obtain c cs where "show_nat (n div 10) = c # cs" "isdigit c" "\<not> isspace c"
      "c \<noteq> CHR ''-''" "c \<noteq> CHR ''+''" by blast
    with False show ?thesis by (subst show_nat.simps) simp
  qed
qed

lemma dec_val_append: "dec_val acc (xs @ ys) = dec_val (dec_val acc xs) ys"
  by (induction xs arbitrary: acc) simp_all

lemma dec_val_show_nat: "dec_val 0 (show_nat n) = n"
proof (induction n rule: show_nat.induct)
  case (1 n)
  show ?case
  proof (cases "n < 10")
    case True
    then show ?thesis by (subst show_nat.simps) (simp add: digit_char_props)
  next
    case False
    with 1 show ?thesis
      by (subst show_nat.simps) (simp add: dec_val_append digit_char_props)
  qed
qed

lemma scan_int_show_nat:
  assumes "rest = [] \<or> \<not> isdigit (hd rest)"
  shows "scan_int (show_nat n @ rest) = Some (int n)"
proof -
  obtain c cs where sn: "show_nat n = c # cs" and c: "isdigit c" "\<not> isspace c"
    "c \<noteq> CHR ''-''" "c \<noteq> CHR ''+''" using show_nat_Cons by blast
  from assms have rest: "takeWhile isdigit rest = []" by (cases rest) auto
  have "takeWhile isdigit (show_nat n @ rest) = show_nat n"
    using show_nat_digits[of n] rest by (simp add: takeWhile_append2 list_all_iff)
  then have tw: "takeWhile isdigit (c # cs @ rest) = c # cs" using sn by simp
  from c tw dec_val_show_nat[of n] sn show ?thesis
    by (simp add: scan_int_def Let_def del: takeWhile.simps dec_val.simps)
qed

lemma scan_int_show_int: "scan_int (show_int v @ NL) = Some v"
proof (cases "v < 0")
  case False
  with scan_int_show_nat[of NL "nat v"] show ?thesis
    by (simp add: show_int_def isdigit_def)
next
  case True
  obtain c cs where sn: "show_nat (nat (- v)) = c # cs" and c: "isdigit c"
    using show_nat_Cons by blast
  have "takeWhile isdigit (show_nat (nat (- v)) @ NL) = show_nat (nat (- v))"
    using show_nat_digits[of "nat (- v)"]
    by (simp add: takeWhile_append2 list_all_iff isdigit_def)
  then have tw: "takeWhile isdigit (c # cs @ NL) = c # cs" using sn by simp
  from True c tw dec_val_show_nat[of "nat (- v)"] sn show ?thesis
    by (simp add: scan_int_def show_int_def isspace_def Let_def
             del: takeWhile.simps dec_val.simps)
qed

text \<open>
  Reading back with \<^verbatim>\<open>%d\<close> the number that a hwmon name ends with, and with
  \<^verbatim>\<open>%ld\<close> the number that an attribute file holds.
\<close>

lemma scanf_d_hwmon_name:
  "M < 2147483648 \<Longrightarrow> scanf_d (drop 5 (''hwmon'' @ show_nat M)) x = int M"
  using scan_int_show_nat[of "[]" M]
  by (simp add: scanf_d_def scan_d_def strtol_clamp_def low32_def)

lemma scanf_ld_attribute:
  "LONG_MIN \<le> raw \<Longrightarrow> raw \<le> LONG_MAX \<Longrightarrow> scanf_ld (show_int raw @ NL) x = raw"
  using scan_int_show_int[of raw]
  by (simp add: scanf_ld_def scan_ld_def strtol_clamp_def)

lemma scanf_s_word: "is_word w \<Longrightarrow> scanf_s (w @ NL) buf = w"
proof -
  assume w: "is_word w"
  then obtain c cs where wc: "w = c # cs" "\<not> isspace c"
    by (cases w) (auto simp: is_word_def)
  from w have "takeWhile (\<lambda>c. \<not> isspace c) (w @ NL) = w"
    by (simp add: takeWhile_append2 is_word_def list_all_iff isspace_def)
  with wc w show ?thesis
    by (simp add: scanf_s_def scan_s_def Let_def del: takeWhile.simps)
qed

lemma count_entries_filter:
  "count_entries entries n = n + int (length (filter (\<lambda>d_name. strstr d_name ''hwmon'') entries))"
  by (induction entries arbitrary: n) simp_all

subsection \<open>A descriptor with an explicit attribute\<close>

lemma show_int_nat [simp]: "show_int (int j) = show_nat j"
  by (simp add: show_int_def)

lemma other_driver_continue:
  assumes other: "other_driver fs d j" and id: "hwmon_id l = int j" and fd: "0 < fd_free p"
  shows "\<exists>l' p'. loop_body v fs d l p = Continue l' p' \<and> hwmon_id l' = int j
                  \<and> fd_free p' = fd_free p"
proof (cases "fopen_r fs (name_path j (address d))")
  case (Inl e)
  with id fd show ?thesis
    by (simp add: loop_body_def Let_def name_path_def fopen_with_descriptor)
next
  case (Inr c)
  with other have c: "c \<noteq> []" "last c = CHR 0x0A" "is_word (butlast c)"
    "butlast c \<noteq> device d" by (simp_all add: other_driver_def)
  from c(1,2) have "c = butlast c @ NL" by (metis append_butlast_last_id)
  with scanf_s_word[OF c(3), of "device_name l"]
  have "scanf_s c (device_name l) = butlast c" by simp
  with Inr c(4) id fd show ?thesis
    by (auto simp: loop_body_def Let_def name_path_def fopen_with_descriptor)
qed

lemma bound_iteration_found:
  assumes nm: "name d \<noteq> []" and w: "is_word (device d)"
    and nf: "fopen_r fs (name_path i (address d)) = Inr (device d @ NL)"
    and dir: "opendir_r fs (hwmon_path i (address d)) = Inr entries"
    and third: "take 1 (drop 2 entries) = [''hwmon'' @ show_nat M]"
    and M: "M < 2147483648"
    and id: "hwmon_id l = int i" and fd: "0 < fd_free p"
  shows "\<exists>q. loop_body v fs d l p
           = Return (Found (int M)) (''/sys/class/hwmon/hwmon'' @ show_nat M @ ''/'' @ name d) d q"
proof -
  from third obtain later where dr: "drop 2 entries = (''hwmon'' @ show_nat M) # later"
    by (cases "drop 2 entries") auto
  have dn: "scanf_s (device d @ NL) (device_name l) = device d"
    by (rule scanf_s_word[OF w])
  have idx: "scanf_d (drop 5 (''hwmon'' @ show_nat M)) (int i) = int M"
    by (rule scanf_d_hwmon_name[OF M])
  have np: "''/sys/class/hwmon/hwmon'' @ show_int (hwmon_id l) @ ''/device/driver/''
      @ address d @ ''/name'' = name_path i (address d)"
    by (simp add: name_path_def id)
  have hp: "''/sys/class/hwmon/hwmon'' @ show_int (hwmon_id l) @ ''/device/driver/''
      @ address d @ ''/hwmon'' = hwmon_path i (address d)"
    by (simp add: hwmon_path_def id)
  have sel: "\<exists>q. select_channel v fs d l0 (''hwmon'' @ show_nat M) p0
      = Return (Found (int M)) (''/sys/class/hwmon/hwmon'' @ show_nat M @ ''/'' @ name d) d q"
    if "hwmon_id l0 = int i" for l0 p0
    using idx nm that unfolding select_channel_def Let_def by simp
  show ?thesis
    unfolding loop_body_def Let_def np hp
    using nf dir fd dn dr sel
    by (simp add: fopen_with_descriptor opendir_with_descriptor id)
qed

lemma explicit_loop_found:
  assumes nm: "name d \<noteq> []" and w: "is_word (device d)"
    and nf: "fopen_r fs (name_path i (address d)) = Inr (device d @ NL)"
    and dir: "opendir_r fs (hwmon_path i (address d)) = Inr entries"
    and third: "take 1 (drop 2 entries) = [''hwmon'' @ show_nat M]"
    and M: "M < 2147483648" and i: "i < 2147483648" and n: "int i < n"
  shows "\<forall>k. j \<le> k \<and> k < i \<longrightarrow> other_driver fs d k \<Longrightarrow> j \<le> i \<Longrightarrow> hwmon_id l = int j \<Longrightarrow>
         0 < fd_free p \<Longrightarrow>
         \<exists>q. hwmon_loop v fs d n l p
           = Some (Found (int M), ''/sys/class/hwmon/hwmon'' @ show_nat M @ ''/'' @ name d, d, q)"
proof (induction "i - j" arbitrary: j l p)
  case 0
  then have "hwmon_id l = int i" by simp
  from bound_iteration_found[OF nm w nf dir third M this \<open>0 < fd_free p\<close>, of v]
  obtain q where "loop_body v fs d l p
      = Return (Found (int M)) (''/sys/class/hwmon/hwmon'' @ show_nat M @ ''/'' @ name d) d q"
    by blast
  with n \<open>hwmon_id l = int i\<close> show ?case
    by (subst hwmon_loop.simps) simp
next
  case (Suc m)
  then have lt: "j < i" by simp
  with Suc.prems have "other_driver fs d j" by simp
  from other_driver_continue[OF this \<open>hwmon_id l = int j\<close> \<open>0 < fd_free p\<close>, of v]
  obtain l' p' where body: "loop_body v fs d l p = Continue l' p'"
    and id': "hwmon_id l' = int j" and fd': "fd_free p' = fd_free p" by blast
  from lt i id' have nov: "hwmon_id l' \<noteq> INT_MAX" by simp
  have "\<exists>q. hwmon_loop v fs d n (l'\<lparr>hwmon_id := hwmon_id l' + 1\<rparr>) p'
      = Some (Found (int M), ''/sys/class/hwmon/hwmon'' @ show_nat M @ ''/'' @ name d, d, q)"
  proof (rule Suc.hyps(1))
    show "m = i - Suc j" using Suc.hyps(2) by simp
    show "\<forall>k. Suc j \<le> k \<and> k < i \<longrightarrow> other_driver fs d k" using Suc.prems(1) by simp
    show "Suc j \<le> i" using lt by simp
    show "hwmon_id (l'\<lparr>hwmon_id := hwmon_id l' + 1\<rparr>) = int (Suc j)" using id' by simp
    show "0 < fd_free p'" using fd' Suc.prems(4) by simp
  qed
  then obtain q where "hwmon_loop v fs d n (l'\<lparr>hwmon_id := hwmon_id l' + 1\<rparr>) p'
      = Some (Found (int M), ''/sys/class/hwmon/hwmon'' @ show_nat M @ ''/'' @ name d, d, q)"
    by blast
  moreover from lt n \<open>hwmon_id l = int j\<close> have "hwmon_id l < n" by simp
  ultimately show ?case using body nov
    by (subst hwmon_loop.simps) simp
qed

lemma first_bound_found:
  assumes nm: "name d \<noteq> []" and fb: "first_bound fs d i M" and fd: "0 < fd_free p"
  shows "\<exists>q. get_pmbus_device_filename v fs u d fname p
           = Some (Found (int M), ''/sys/class/hwmon/hwmon'' @ show_nat M @ ''/'' @ name d, d, q)"
proof -
  from fb obtain listing where cls: "opendir_r fs ''/sys/class/hwmon'' = Inr listing"
    and i_lt: "i < length (filter (\<lambda>d_name. strstr d_name ''hwmon'') listing)"
    by (auto simp: first_bound_def split: sum.splits)
  from fb obtain entries where dir: "opendir_r fs (hwmon_path i (address d)) = Inr entries"
    and third: "take 1 (drop 2 entries) = [''hwmon'' @ show_nat M]"
    by (auto simp: first_bound_def split: sum.splits)
  from fb have w: "is_word (device d)"
    and nf: "fopen_r fs (name_path i (address d)) = Inr (device d @ NL)"
    and others: "list_all (other_driver fs d) [0..<i]"
    and M: "M < 2147483648" and i: "i < 2147483648"
    by (simp_all add: first_bound_def)
  let ?n = "int (length (filter (\<lambda>d_name. strstr d_name ''hwmon'') listing))"
  from cls fd have count: "count_hwmon_reg_devices fs p
      = (?n, closedir ''/sys/class/hwmon''
               (p\<lparr>calls := calls p @ [Opendir Class_dir ''/sys/class/hwmon''],
                   fd_free := fd_free p - 1\<rparr>))"
    by (simp add: count_hwmon_reg_devices_def opendir_with_descriptor count_entries_filter)
  from others have oth: "\<forall>k. 0 \<le> k \<and> k < i \<longrightarrow> other_driver fs d k"
    by (simp add: list_all_iff)
  from i_lt have n: "int i < ?n" by simp
  from explicit_loop_found[OF nm w nf dir third M i n oth, of
      "\<lparr>hwmon_id = 0, filename = fname, device_name = u_device_name u,
        reg_label = u_reg_label u\<rparr>"
      "closedir ''/sys/class/hwmon''
         (p\<lparr>calls := calls p @ [Opendir Class_dir ''/sys/class/hwmon''],
             fd_free := fd_free p - 1\<rparr>)" v] fd
  show ?thesis
    by (simp add: get_pmbus_device_filename_def count)
qed

lemma bound_hwmon_names:
  assumes "bound_hwmon fs addr i = Some M"
  shows "\<exists>entries.
           opendir_r fs (''/sys/class/hwmon/hwmon'' @ show_int i @ ''/device/driver/'' @ addr
                         @ ''/hwmon'') = Inr entries
           \<and> (\<forall>k. k < 2147483648 \<and> take 1 (drop 2 entries) = [''hwmon'' @ show_nat k]
                    \<longrightarrow> M = int k)"
proof -
  from assms obtain entries d_name later where
    dir: "opendir_r fs (''/sys/class/hwmon/hwmon'' @ show_int i @ ''/device/driver/'' @ addr
                        @ ''/hwmon'') = Inr entries"
    and third: "drop 2 entries = d_name # later"
    and M: "M = scanf_d (drop 5 d_name) i"
    by (auto simp: bound_hwmon_def split: sum.splits list.splits)
  have "M = int k" if "k < 2147483648" "take 1 (drop 2 entries) = [''hwmon'' @ show_nat k]" for k
  proof -
    from that(2) third have "d_name = ''hwmon'' @ show_nat k" by simp
    with M scanf_d_hwmon_name[OF that(1), of i] show ?thesis by simp
  qed
  with dir show ?thesis by blast
qed

text \<open>
  Claim C3: for a descriptor with a non-empty \<^verbatim>\<open>name\<close> the resolver returns,
  makes none of the calls of the label scan (no \<^verbatim>\<open>opendir\<close> of a hwmon directory
  to list it, no \<^verbatim>\<open>fopen\<close> of a label file) and leaves the descriptor as it is.
  An index \<open>M\<close> that it returns comes with the path
  \<^verbatim>\<open>/sys/class/hwmon/hwmon<M>/<name>\<close>, and it is the number in the name of the
  third entry of a directory \<^verbatim>\<open>hwmon<i>/device/driver/<address>/hwmon\<close> under the
  descriptor's bus address, when that entry is a hwmon name. When the device at the
  bus address is bound as \<^verbatim>\<open>hwmon<M>\<close> (and first met at \<^verbatim>\<open>hwmon<i>\<close>, whatever
  \<open>i\<close> is) and a file descriptor is free, the resolver does return that \<open>M\<close>.
\<close>

theorem C3_explicit_attribute_skips_label_scan:
  assumes "name pInfo \<noteq> []"
  shows "\<exists>x fname' p'.
           get_pmbus_device_filename verbose_flag fs u pInfo fname p
             = Some (x, fname', pInfo, p')
           \<and> label_calls p' = label_calls p
           \<and> (\<forall>M. x = Found M \<longrightarrow>
                 fname' = ''/sys/class/hwmon/hwmon'' @ show_int M @ ''/'' @ name pInfo
                 \<and> (\<exists>i entries.
                        opendir_r fs (''/sys/class/hwmon/hwmon'' @ show_int i
                                      @ ''/device/driver/'' @ address pInfo @ ''/hwmon'')
                          = Inr entries
                        \<and> (\<forall>k. k < 2147483648
                                 \<and> take 1 (drop 2 entries) = [''hwmon'' @ show_nat k]
                                 \<longrightarrow> M = int k)))
           \<and> (\<forall>i M. first_bound fs pInfo i M \<and> 0 < fd_free p \<longrightarrow>
                 x = Found (int M)
                 \<and> fname' = ''/sys/class/hwmon/hwmon'' @ show_nat M @ ''/'' @ name pInfo)"
proof -
  from resolver_returns[of verbose_flag fs u pInfo fname p]
  obtain x F d' q where run: "get_pmbus_device_filename verbose_flag fs u pInfo fname p
      = Some (x, F, d', q)" by (metis prod_cases4)
  from resolver_result[OF run] assms
  have same: "d' = pInfo" and lc: "label_calls q = label_calls p"
    and path: "\<forall>M. x = Found M \<longrightarrow>
                 F = ''/sys/class/hwmon/hwmon'' @ show_int M @ ''/'' @ name pInfo
                 \<and> (\<exists>i. bound_hwmon fs (address pInfo) i = Some M)"
    by auto
  have sound: "F = ''/sys/class/hwmon/hwmon'' @ show_int M @ ''/'' @ name pInfo
      \<and> (\<exists>i entries.
             opendir_r fs (''/sys/class/hwmon/hwmon'' @ show_int i
                           @ ''/device/driver/'' @ address pInfo @ ''/hwmon'')
               = Inr entries
             \<and> (\<forall>k. k < 2147483648
                      \<and> take 1 (drop 2 entries) = [''hwmon'' @ show_nat k]
                      \<longrightarrow> M = int k))" if "x = Found M" for M
  proof -
    from path that obtain i where "bound_hwmon fs (address pInfo) i = Some M"
      and F: "F = ''/sys/class/hwmon/hwmon'' @ show_int M @ ''/'' @ name pInfo" by blast
    from bound_hwmon_names[OF this(1)] F show ?thesis by blast
  qed
  have complete: "x = Found (int M)
      \<and> F = ''/sys/class/hwmon/hwmon'' @ show_nat M @ ''/'' @ name pInfo"
    if "first_bound fs pInfo i M" "0 < fd_free p" for i M
    using first_bound_found[OF assms that, of verbose_flag u fname] run by auto
  from run same lc sound complete show ?thesis by blast
qed

text \<open>
  With the two chips, the driver directory reached through \<^verbatim>\<open>hwmon0\<close> leads to
  the chip at \<^verbatim>\<open>6-0044\<close>, which is \<^verbatim>\<open>hwmon1\<close>: the loop is at index 0 when it
  returns 1.
\<close>

theorem C3_witness:
  "name rail_6_0044 \<noteq> []
   \<and> first_bound fs_two_chips rail_6_0044 0 1 \<and> 0 < fd_free p_init
   \<and> map_option (\<lambda>(x, F, d', q). (x, F, d', label_calls q))
       (get_pmbus_device_filename False fs_two_chips u_zero rail_6_0044 [] p_init)
     = Some (Found 1, ''/sys/class/hwmon/hwmon1/temp1_input'', rail_6_0044, [])"
proof -
  have nm: "name rail_6_0044 \<noteq> []" by (simp add: rail_6_0044_def row_def)
  have fb: "first_bound fs_two_chips rail_6_0044 0 1"
    by (simp add: first_bound_def rail_6_0044_def row_def fs_two_chips_def mk_fs_def
          name_path_def hwmon_path_def is_word_def isspace_def show_nat.simps digit_char_def)
  have fd: "0 < fd_free p_init" by (simp add: p_init_def)
  from C3_explicit_attribute_skips_label_scan[OF nm, of False fs_two_chips u_zero "[]" p_init]
    fb fd
  have "\<exists>p'. get_pmbus_device_filename False fs_two_chips u_zero rail_6_0044 [] p_init
      = Some (Found (int 1), ''/sys/class/hwmon/hwmon'' @ show_nat 1 @ ''/''
              @ name rail_6_0044, rail_6_0044, p')
      \<and> label_calls p' = label_calls p_init"
    by blast
  then show ?thesis using nm fb fd
    by (auto simp: show_nat.simps digit_char_def rail_6_0044_def row_def label_calls_def
          p_init_def)
qed

subsection \<open>The output is only appended to\<close>

text \<open>
  No function of the model reads what has been printed. So a run from a state whose
  output is changed by \<open>f\<close> is the run from the state itself with the output
  changed by \<open>f\<close> afterwards, as long as \<open>f\<close> goes along with appending: it keeps
  each \<open>Std\<close> item appended, and turns the \<open>Verb\<close> item that the flag \<open>v\<close> prints
  into the one that the flag \<open>v'\<close> prints. Erasing the verbose output is such an
  \<open>f\<close> (with \<open>v'\<close> false), and so is putting earlier output in front.
\<close>

lemma vprintf_False [simp]: "vprintf False s p = p"
  by (simp add: vprintf_def)

lemma on_stdout_simps [simp]:
  "on_stdout f (fclose path p) = fclose path (on_stdout f p)"
  "on_stdout f (closedir path p) = closedir path (on_stdout f p)"
  "errno (on_stdout f p) = errno p"
  "calls (on_stdout f p) = calls p"
  "stdout (on_stdout f p) = f (stdout p)"
  "fd_free (on_stdout f p) = fd_free p"
  by (simp_all add: on_stdout_def fclose_def closedir_def)

lemma on_stdout_printf:
  assumes "\<And>xs s. f (xs @ [Std s]) = f xs @ [Std s]"
  shows "on_stdout f (printf s p) = printf s (on_stdout f p)"
  using assms by (simp add: on_stdout_def printf_def)

lemma on_stdout_vprintf:
  assumes "\<And>xs s. f (xs @ (if v then [Verb s] else [])) = f xs @ (if v' then [Verb s] else [])"
  shows "on_stdout f (vprintf v s p) = vprintf v' s (on_stdout f p)"
  using assms[of "stdout p" s] by (simp add: on_stdout_def vprintf_def split: if_splits)

lemma on_stdout_fopen:
  "fopen fs k path (on_stdout f p)
     = (fst (fopen fs k path p), on_stdout f (snd (fopen fs k path p)))"
  by (simp add: fopen_def on_stdout_def split: sum.splits)

lemma on_stdout_opendir:
  "opendir fs k path (on_stdout f p)
     = (fst (opendir fs k path p), on_stdout f (snd (opendir fs k path p)))"
  by (simp add: opendir_def on_stdout_def split: sum.splits)

lemma on_stdout_label_scan:
  assumes std: "\<And>xs s. f (xs @ [Std s]) = f xs @ [Std s]"
    and verb: "\<And>xs s. f (xs @ (if v then [Verb s] else []))
                 = f xs @ (if v' then [Verb s] else [])"
  shows "label_scan v' fs d ids es F rl (on_stdout f p) =
     (case label_scan v fs d ids es F rl p of
        Matched reg F' p' \<Rightarrow> Matched reg F' (on_stdout f p')
      | No_match F' rl' p' \<Rightarrow> No_match F' rl' (on_stdout f p'))"
proof (induction es arbitrary: F rl p)
  case Nil
  show ?case by simp
next
  case (Cons e es)
  show ?case
  proof (cases "strstr e ''label''")
    case False
    with Cons show ?thesis by simp
  next
    case True
    obtain r p1 where fo: "fopen fs Label_file (''/sys/class/hwmon/hwmon'' @ ids @ ''/'' @ e) p
        = (r, p1)" by force
    then have fo': "fopen fs Label_file (''/sys/class/hwmon/hwmon'' @ ids @ ''/'' @ e)
        (on_stdout f p) = (r, on_stdout f p1)" by (simp add: on_stdout_fopen)
    show ?thesis
    proof (cases r)
      case None
      with True fo fo' Cons[of _ rl "printf _ p1"] show ?thesis
        by (simp add: on_stdout_printf[OF std])
    next
      case (Some contents)
      with True fo fo' Cons[of _ "scanf_s contents rl" "fclose _ p1"] show ?thesis
        by (simp add: on_stdout_vprintf[OF verb])
    qed
  qed
qed

lemma on_stdout_select_channel:
  assumes std: "\<And>xs s. f (xs @ [Std s]) = f xs @ [Std s]"
    and verb: "\<And>xs s. f (xs @ (if v then [Verb s] else []))
                 = f xs @ (if v' then [Verb s] else [])"
  shows "select_channel v' fs d l d_name (on_stdout f p) =
     (case select_channel v fs d l d_name p of
        Continue l' p' \<Rightarrow> Continue l' (on_stdout f p')
      | Return x F d' p' \<Rightarrow> Return x F d' (on_stdout f p'))"
proof (cases "name d = []")
  case False
  then show ?thesis by (simp add: select_channel_def Let_def on_stdout_vprintf[OF verb])
next
  case True
  let ?dir = "''/sys/class/hwmon/hwmon'' @ show_int (scanf_d (drop 5 d_name) (hwmon_id l))"
  let ?p = "vprintf v (TAB @ ''Searching for name that matches label '' @ label d @ NL) p"
  let ?p' = "vprintf v' (TAB @ ''Searching for name that matches label '' @ label d @ NL)
               (on_stdout f p)"
  obtain r p1 where od: "opendir fs Label_dir ?dir ?p = (r, p1)" by force
  then have od': "opendir fs Label_dir ?dir ?p' = (r, on_stdout f p1)"
    using on_stdout_opendir[of fs Label_dir ?dir f ?p] by (simp add: on_stdout_vprintf[OF verb])
  show ?thesis
  proof (cases r)
    case None
    with True od od' show ?thesis
      by (simp add: select_channel_def Let_def on_stdout_printf[OF std])
  next
    case (Some entries)
    with True od od'
      on_stdout_label_scan[OF std verb, of fs d
        "show_int (scanf_d (drop 5 d_name) (hwmon_id l))" entries ?dir "reg_label l" p1]
    show ?thesis by (simp add: select_channel_def Let_def split: scan.splits)
  qed
qed

lemma on_stdout_loop_body:
  assumes std: "\<And>xs s. f (xs @ [Std s]) = f xs @ [Std s]"
    and verb: "\<And>xs s. f (xs @ (if v then [Verb s] else []))
                 = f xs @ (if v' then [Verb s] else [])"
  shows "loop_body v' fs d l (on_stdout f p) =
     (case loop_body v fs d l p of
        Continue l' p' \<Rightarrow> Continue l' (on_stdout f p')
      | Return x F d' p' \<Rightarrow> Return x F d' (on_stdout f p'))"
proof -
  let ?np = "''/sys/class/hwmon/hwmon'' @ show_int (hwmon_id l) @ ''/device/driver/''
             @ address d @ ''/name''"
  let ?hp = "''/sys/class/hwmon/hwmon'' @ show_int (hwmon_id l) @ ''/device/driver/''
             @ address d @ ''/hwmon''"
  obtain r p1 where fo: "fopen fs Driver_name ?np p = (r, p1)" by force
  then have fo': "fopen fs Driver_name ?np (on_stdout f p) = (r, on_stdout f p1)"
    by (simp add: on_stdout_fopen)
  show ?thesis
  proof (cases r)
    case None
    with fo fo' show ?thesis by (simp add: loop_body_def Let_def)
  next
    case (Some contents)
    note opened = this
    let ?dn = "scanf_s contents (device_name l)"
    let ?p2 = "vprintf v (TAB @ ?np @ '' => '' @ ?dn @ NL) (fclose ?np p1)"
    let ?p2' = "vprintf v' (TAB @ ?np @ '' => '' @ ?dn @ NL) (fclose ?np (on_stdout f p1))"
    have p2': "?p2' = on_stdout f ?p2" by (simp add: on_stdout_vprintf[OF verb])
    show ?thesis
    proof (cases "device d = ?dn")
      case False
      with opened fo fo' p2' show ?thesis by (simp add: loop_body_def Let_def)
    next
      case True
      obtain r2 p3 where od: "opendir fs Driver_hwmon ?hp ?p2 = (r2, p3)" by force
      then have od': "opendir fs Driver_hwmon ?hp ?p2' = (r2, on_stdout f p3)"
        using on_stdout_opendir[of fs Driver_hwmon ?hp f ?p2] p2' by simp
      show ?thesis
      proof (cases r2)
        case None
        with opened True fo fo' od od' show ?thesis
          by (simp add: loop_body_def Let_def on_stdout_printf[OF std])
      next
        case (Some entries)
        note ents = this
        show ?thesis
        proof (cases "drop 2 entries")
          case Nil
          with ents opened True fo fo' od od' show ?thesis
            by (simp add: loop_body_def Let_def on_stdout_printf[OF std])
        next
          case (Cons d_name later)
          with ents opened True fo fo' od od'
            on_stdout_select_channel[OF std verb, of fs d
              "l\<lparr>filename := ?hp, device_name := ?dn\<rparr>" d_name
              "vprintf v (TAB @ ?hp @ '' => '' @ d_name @ NL) p3"]
          show ?thesis
            by (simp add: loop_body_def Let_def on_stdout_vprintf[OF verb])
        qed
      qed
    qed
  qed
qed

lemma on_stdout_hwmon_loop_n:
  assumes std: "\<And>xs s. f (xs @ [Std s]) = f xs @ [Std s]"
    and verb: "\<And>xs s. f (xs @ (if v then [Verb s] else []))
                 = f xs @ (if v' then [Verb s] else [])"
  shows "hwmon_loop_n k v' fs d n l (on_stdout f p) =
     map_option (\<lambda>(x, F, d', q). (x, F, d', on_stdout f q)) (hwmon_loop_n k v fs d n l p)"
proof (induction k arbitrary: l p)
  case 0
  show ?case by simp
next
  case (Suc k)
  show ?case
  proof (cases "loop_body v fs d l p")
    case (Continue l' p')
    with on_stdout_loop_body[OF std verb, of fs d l p]
    have "loop_body v' fs d l (on_stdout f p) = Continue l' (on_stdout f p')" by simp
    with Continue Suc[of "l'\<lparr>hwmon_id := hwmon_id l' + 1\<rparr>" p'] show ?thesis by simp
  next
    case (Return x F d' q)
    with on_stdout_loop_body[OF std verb, of fs d l p]
    have "loop_body v' fs d l (on_stdout f p) = Return x F d' (on_stdout f q)" by simp
    with Return show ?thesis by simp
  qed
qed

lemma on_stdout_hwmon_loop:
  assumes std: "\<And>xs s. f (xs @ [Std s]) = f xs @ [Std s]"
    and verb: "\<And>xs s. f (xs @ (if v then [Verb s] else []))
                 = f xs @ (if v' then [Verb s] else [])"
  shows "hwmon_loop v' fs d n l (on_stdout f p) =
     map_option (\<lambda>(x, F, d', q). (x, F, d', on_stdout f q)) (hwmon_loop v fs d n l p)"
proof (cases "hwmon_loop v fs d n l p")
  case (Some r)
  then obtain k where "hwmon_loop_n k v fs d n l p = Some r"
    using hwmon_loop_n_complete by blast
  then have "hwmon_loop_n k v' fs d n l (on_stdout f p)
      = Some ((\<lambda>(x, F, d', q). (x, F, d', on_stdout f q)) r)"
    by (simp add: on_stdout_hwmon_loop_n[OF std verb])
  from hwmon_loop_n_sound[OF this] Some show ?thesis by simp
next
  case None
  have "hwmon_loop v' fs d n l (on_stdout f p) = None"
  proof (rule ccontr)
    assume "hwmon_loop v' fs d n l (on_stdout f p) \<noteq> None"
    then obtain r' where "hwmon_loop v' fs d n l (on_stdout f p) = Some r'" by blast
    then obtain k where "hwmon_loop_n k v' fs d n l (on_stdout f p) = Some r'"
      using hwmon_loop_n_complete by blast
    then obtain r where "hwmon_loop_n k v fs d n l p = Some r"
      by (auto simp: on_stdout_hwmon_loop_n[OF std verb])
    from hwmon_loop_n_sound[OF this] None show False by simp
  qed
  with None show ?thesis by simp
qed

lemma on_stdout_count:
  assumes std: "\<And>xs s. f (xs @ [Std s]) = f xs @ [Std s]"
  shows "count_hwmon_reg_devices fs (on_stdout f p) =
     (fst (count_hwmon_reg_devices fs p), on_stdout f (snd (count_hwmon_reg_devices fs p)))"
  by (simp add: count_hwmon_reg_devices_def on_stdout_opendir on_stdout_printf[OF std]
           split: prod.splits option.splits)

lemma on_stdout_resolver:
  assumes std: "\<And>xs s. f (xs @ [Std s]) = f xs @ [Std s]"
    and verb: "\<And>xs s. f (xs @ (if v then [Verb s] else []))
                 = f xs @ (if v' then [Verb s] else [])"
  shows "get_pmbus_device_filename v' fs u d fname (on_stdout f p) =
     map_option (\<lambda>(x, F, d', q). (x, F, d', on_stdout f q))
       (get_pmbus_device_filename v fs u d fname p)"
  by (simp add: get_pmbus_device_filename_def on_stdout_count[OF std]
        on_stdout_hwmon_loop[OF std verb] split: prod.splits)

lemma on_stdout_rails_loop:
  assumes std: "\<And>xs s. f (xs @ [Std s]) = f xs @ [Std s]"
    and verb: "\<And>xs s. f (xs @ (if v then [Verb s] else []))
                 = f xs @ (if v' then [Verb s] else [])"
  shows "rails_loop v' fs u i rows fname val (on_stdout f p) =
     map_option (\<lambda>(r, t, q). (r, t, on_stdout f q)) (rails_loop v fs u i rows fname val p)"
proof (induction rows arbitrary: i fname val p)
  case Nil
  show ?case by simp
next
  case (Cons rail rest)
  show ?case
  proof (cases "device rail = []")
    case True
    then show ?thesis by simp
  next
    case False
    let ?p0 = "vprintf v (''['' @ show_int (int i) @ ''] '' @ device rail @ '','' @ address rail
                 @ '','' @ label rail @ '','' @ name rail @ '','' @ unit rail @ NL) p"
    note res = on_stdout_resolver[OF std verb, of fs u rail fname ?p0]
    show ?thesis
    proof (cases "get_pmbus_device_filename v fs u rail fname ?p0")
      case None
      with False res show ?thesis by (simp add: on_stdout_vprintf[OF verb])
    next
      case (Some r)
      note resolved = this
      obtain x F rail' p1 where r: "r = (x, F, rail', p1)" by (cases r) auto
      let ?p1 = "vprintf v (TAB @ device rail' @ ''@'' @ address rail' @ ''-'' @ label rail'
                   @ '' => '' @ F @ NL) p1"
      obtain c p2 where fo: "fopen fs Value_file F ?p1 = (c, p2)" by force
      then have fo': "fopen fs Value_file F
          (vprintf v' (TAB @ device rail' @ ''@'' @ address rail' @ ''-'' @ label rail'
                       @ '' => '' @ F @ NL) (on_stdout f p1)) = (c, on_stdout f p2)"
        using on_stdout_fopen[of fs Value_file F f ?p1] by (simp add: on_stdout_vprintf[OF verb])
      show ?thesis
      proof (cases "x = Overflow")
        case True
        with False res resolved r show ?thesis
          by (simp add: on_stdout_vprintf[OF verb])
      next
        case nov: False
        show ?thesis
        proof (cases c)
          case None
          with False res resolved r nov fo fo' show ?thesis
            by (simp add: on_stdout_vprintf[OF verb] on_stdout_printf[OF std])
        next
          case (Some contents)
          note opened = this
          show ?thesis
          proof (cases "c_div (scanf_ld contents val) (division rail')")
            case None
            with False res resolved r nov fo fo' opened show ?thesis
              by (simp add: on_stdout_vprintf[OF verb])
          next
            case (Some quot)
            with False res resolved r nov fo fo' opened
              Cons[of "Suc i" F "scanf_ld contents val"
                    "printf (TAB @ device rail' @ ''@'' @ address rail' @ ''-'' @ label rail'
                             @ '' ('' @ alias rail' @ '') = '' @ show_int quot @ '' ''
                             @ unit rail' @ NL) (fclose F p2)"]
            show ?thesis
              by (simp add: on_stdout_vprintf[OF verb] on_stdout_printf[OF std]
                       split: option.splits)
          qed
        qed
      qed
    qed
  qed
qed

lemma on_stdout_print_pmbus_info:
  assumes std: "\<And>xs s. f (xs @ [Std s]) = f xs @ [Std s]"
    and verb: "\<And>xs s. f (xs @ (if v then [Verb s] else []))
                 = f xs @ (if v' then [Verb s] else [])"
  shows "print_pmbus_info v' fs u pmbus_list (on_stdout f p) =
     map_option (\<lambda>(r, t, q). (r, t, on_stdout f q)) (print_pmbus_info v fs u pmbus_list p)"
  using on_stdout_rails_loop[OF std verb, of fs u 0 pmbus_list "u_filename u"
          "low64 (u_pmbus_value u)"
          "printf (NL @ ''Power Utilization:'' @ NL) p"]
  by (simp add: print_pmbus_info_def on_stdout_printf[OF std])

subsection \<open>The verbose flag\<close>

lemma quiet_on_stdout: "quiet p = on_stdout (filter is_std) p"
  by (simp add: quiet_def on_stdout_def)

text \<open>
  The flag only guards calls of \<^verbatim>\<open>printf\<close>. From the same state, and with the
  same contents of the variables that are read before they are written, a run of
  the reporter or of the resolver without the flag is the run with the flag with the
  output printed under \<^verbatim>\<open>if (verbose_flag)\<close> left out: the same exit, the same
  path, the same descriptors afterwards, the same library calls, the same
  \<^verbatim>\<open>errno\<close> and the same other output.
\<close>

lemma verbose_flag_only_guards_printf:
  "print_pmbus_info False fs u pmbus_list (quiet p) =
     map_option (\<lambda>(r, t, q). (r, t, quiet q)) (print_pmbus_info True fs u pmbus_list p)
   \<and> get_pmbus_device_filename False fs u pInfo fname (quiet p) =
     map_option (\<lambda>(x, F, d', q). (x, F, d', quiet q))
       (get_pmbus_device_filename True fs u pInfo fname p)"
proof -
  have std: "\<And>xs s. filter is_std (xs @ [Std s]) = filter is_std xs @ [Std s]" by simp
  have verb: "\<And>xs s. filter is_std (xs @ (if True then [Verb s] else []))
      = filter is_std xs @ (if False then [Verb s] else [])" by simp
  have q: "quiet = on_stdout (filter is_std)"
    by (rule ext) (rule quiet_on_stdout)
  show ?thesis
    unfolding q
    using on_stdout_print_pmbus_info[of "filter is_std" True False fs u pmbus_list p, OF std verb]
      on_stdout_resolver[of "filter is_std" True False fs u pInfo fname p, OF std verb]
    by simp
qed

lemma scenario_A_quiet_and_verbose:
  "map_option (\<lambda>(r, t, q). (r, t, stdout q))
     (print_pmbus_info False fs_scenario_A u_zero [rail_A, sentinel] p_init)
   = Some (Returned (), [rail_A\<lparr>name := ''temp1_input''\<rparr>, sentinel],
           [Std (NL @ ''Power Utilization:'' @ NL),
            Std (TAB @ ''irps5401@6-0043-temp1 (Temperature) = 45 C'' @ NL)])
   \<and> map_option (\<lambda>(r, t, q). (r, t, filter is_std (stdout q)))
     (print_pmbus_info True fs_scenario_A u_zero [rail_A, sentinel] p_init)
   = Some (Returned (), [rail_A\<lparr>name := ''temp1_input''\<rparr>, sentinel],
           [Std (NL @ ''Power Utilization:'' @ NL),
            Std (TAB @ ''irps5401@6-0043-temp1 (Temperature) = 45 C'' @ NL)])
   \<and> map_option (\<lambda>(r, t, q). length (stdout q))
     (print_pmbus_info True fs_scenario_A u_zero [rail_A, sentinel] p_init) = Some 8"
  by (simp add: rail_A_def fs_scenario_A_def quiet_def eval_defs)


subsection \<open>A rail whose bus address has no bound instance\<close>

text \<open>
  When no \<^verbatim>\<open>hwmon<i>/device/driver/<address>/name\<close> can be opened the resolver
  returns -1 and leaves in \<^verbatim>\<open>filename\<close> the last path it tried (or what the buffer
  held, if there was no device to try).
\<close>

lemma unbound_loop_not_found:
  assumes "\<forall>i. isl (fopen_r fs (''/sys/class/hwmon/hwmon'' @ show_int i @ ''/device/driver/''
                                  @ address d @ ''/name''))"
    and "n \<le> INT_MAX"
  shows "\<exists>F q. hwmon_loop v fs d n l p = Some (Not_found, F, d, q)"
proof (induction "nat (n - hwmon_id l)" arbitrary: l p rule: less_induct)
  case less
  show ?case
  proof (cases "hwmon_id l < n")
    case False
    then have "hwmon_loop v fs d n l p = Some (Not_found, filename l, d, p)"
      by (subst hwmon_loop.simps) simp
    then show ?thesis by blast
  next
    case True
    let ?np = "''/sys/class/hwmon/hwmon'' @ show_int (hwmon_id l) @ ''/device/driver/''
               @ address d @ ''/name''"
    from assms(1) obtain e where "fopen_r fs ?np = Inl e"
      by (metis isl_def)
    then have "fst (fopen fs Driver_name ?np p) = None"
      by (simp add: fopen_def)
    then obtain p1 where "fopen fs Driver_name ?np p = (None, p1)"
      by (cases "fopen fs Driver_name ?np p") simp
    then have body: "loop_body v fs d l p = Continue (l\<lparr>filename := ?np\<rparr>) p1"
      by (simp add: loop_body_def Let_def)
    let ?l = "l\<lparr>filename := ?np, hwmon_id := hwmon_id l + 1\<rparr>"
    from True have "nat (n - hwmon_id ?l) < nat (n - hwmon_id l)" by simp
    from less[OF this] obtain F q where
      "hwmon_loop v fs d n ?l p1 = Some (Not_found, F, d, q)" by blast
    moreover from True assms(2) have "hwmon_id l \<noteq> INT_MAX" by simp
    ultimately have "hwmon_loop v fs d n l p = Some (Not_found, F, d, q)"
      using True body by (subst hwmon_loop.simps) simp
    then show ?thesis by blast
  qed
qed

lemma unbound_address_not_found:
  assumes "\<forall>i. isl (fopen_r fs (''/sys/class/hwmon/hwmon'' @ show_int i @ ''/device/driver/''
                                  @ address d @ ''/name''))"
    and "fst (count_hwmon_reg_devices fs p) \<le> INT_MAX"
  shows "\<exists>F q. get_pmbus_device_filename v fs u d fname p = Some (Not_found, F, d, q)
               \<and> exit_code Not_found = Some (- 1)"
proof -
  obtain n p1 where c: "count_hwmon_reg_devices fs p = (n, p1)" by force
  with assms(2) have "n \<le> INT_MAX" by simp
  from unbound_loop_not_found[OF assms(1) this] c show ?thesis
    by (simp add: get_pmbus_device_filename_def exit_code_def)
qed

text \<open>
  Claim C1 says that for a rail whose bus address has no bound instance the resolver
  returns -1, the program does not crash, and the reporter prints nothing for the
  rail and goes on to the next one. In scenario B the resolver does return -1, with
  the last path it tried left in \<^verbatim>\<open>filename\<close>. The reporter does not look at the
  returned value: it opens that path, prints \<^verbatim>\<open>unable to open ...\<close> when
  \<^verbatim>\<open>fopen\<close> returns \<^verbatim>\<open>NULL\<close>, and passes the \<^verbatim>\<open>NULL\<close> stream to
  \<^verbatim>\<open>fscanf\<close>. The run ends there; the second rail of the table, which is present,
  is never reported.
\<close>

theorem C1_unbound_rail_crashes_reporter:
  "map_option (\<lambda>(x, F, d, q). (exit_code x, F, d))
     (get_pmbus_device_filename False fs_scenario_B u_zero rail_A [] p_init)
   = Some (Some (- 1), ''/sys/class/hwmon/hwmon0/device/driver/6-0043/name'', rail_A)
   \<and> map_option (\<lambda>(r, t, q). (r, t, stdout q))
       (print_pmbus_info False fs_scenario_B u_zero table_B p_init)
     = Some (Crashed, table_B,
             [Std (NL @ ''Power Utilization:'' @ NL),
              Std (''unable to open /sys/class/hwmon/hwmon0/device/driver/6-0043/name'' @ NL)])"
  by (simp add: fs_scenario_B_def table_B_def rail_A_def exit_code_def eval_defs)

subsection \<open>The line printed for a rail\<close>

lemma c_div_truncates:
  "b \<noteq> 0 \<Longrightarrow> \<not> (a = LONG_MIN \<and> b = - 1) \<Longrightarrow> c_div a b = Some (truncated_quotient a b)"
  by (auto simp: c_div_def truncated_quotient_def sgn_if)

text \<open>
  What the conversions and the division do at the ends of the types: a number past
  \<^verbatim>\<open>LONG_MAX\<close> is read as \<^verbatim>\<open>LONG_MAX\<close>, \<^verbatim>\<open>%d\<close> keeps the low 32 bits, a text
  without a number leaves the variable as it was, the quotient is rounded towards
  zero, and \<^verbatim>\<open>LONG_MIN\<close> has no quotient by -1.
\<close>

lemma conversions_at_the_bounds:
  "scanf_ld ''9223372036854775808'' 0 = LONG_MAX"
  "scanf_d ''4294967297'' 0 = 1"
  "scanf_ld [] 7000 = 7000"
  "c_div (- 1500) 1000 = Some (- 1)"
  "c_div LONG_MIN (- 1) = None"
  by (simp_all add: scanf_ld_def scanf_d_def scan_ld_def scan_d_def scan_int_def
        strtol_clamp_def low32_def isspace_def isdigit_def digit_val_def c_div_def Let_def)

lemma rails_loop_appends:
  "rails_loop v fs u i rows F val p =
     map_option (\<lambda>(r, t, q). (r, t, q\<lparr>stdout := stdout p @ stdout q\<rparr>))
       (rails_loop v fs u i rows F val (p\<lparr>stdout := []\<rparr>))"
proof -
  have p: "p = on_stdout ((@) (stdout p)) (p\<lparr>stdout := []\<rparr>)"
    by (simp add: on_stdout_def)
  have std: "\<And>xs s. stdout p @ xs @ [Std s] = (stdout p @ xs) @ [Std s]" by simp
  have verb: "\<And>xs s. stdout p @ xs @ (if v then [Verb s] else [])
      = (stdout p @ xs) @ (if v then [Verb s] else [])" by simp
  have "rails_loop v fs u i rows F val (on_stdout ((@) (stdout p)) (p\<lparr>stdout := []\<rparr>)) =
     map_option (\<lambda>(r, t, q). (r, t, on_stdout ((@) (stdout p)) q))
       (rails_loop v fs u i rows F val (p\<lparr>stdout := []\<rparr>))"
    by (rule on_stdout_rails_loop[of "(@) (stdout p)" v v, OF std verb])
  with p show ?thesis by (simp add: on_stdout_def)
qed

lemma rails_loop_output_grows:
  assumes "rails_loop v fs u i rows F val p = Some (r, t, q)"
  shows "\<exists>more. stdout q = stdout p @ more"
  using assms rails_loop_appends[of v fs u i rows F val p] by auto

text \<open>
  Claim C6 as amended: when the resolver succeeds for a row, the file at the path it
  wrote opens and holds a decimal integer \<open>raw\<close> that is a \<^verbatim>\<open>long\<close>, followed by
  a newline, and the row's divisor is not zero (nor -1 when \<open>raw\<close> is
  \<^verbatim>\<open>LONG_MIN\<close>), the reporter returns or crashes later, and the next thing it
  prints is the line made of a tab, \<^verbatim>\<open>device@address-label (alias) = value unit\<close>
  (the fields of the row) and a newline, where the value is \<open>raw\<close> divided by the
  divisor and rounded towards zero; it goes on with the next row.
\<close>

theorem C6_reported_line:
  assumes "device rail \<noteq> []"
    and "get_pmbus_device_filename verbose_flag fs u rail fname
           (vprintf verbose_flag
              (''['' @ show_int (int i) @ ''] '' @ device rail @ '','' @ address rail @ '',''
               @ label rail @ '','' @ name rail @ '','' @ unit rail @ NL) p)
         = Some (Found M, fname', rail', p1)"
    and "fopen fs Value_file fname'
           (vprintf verbose_flag
              (TAB @ device rail @ ''@'' @ address rail @ ''-'' @ label rail @ '' => ''
               @ fname' @ NL) p1)
         = (Some (show_int raw @ NL), p2)"
    and "LONG_MIN \<le> raw" and "raw \<le> LONG_MAX"
    and "division rail \<noteq> 0" and "\<not> (raw = LONG_MIN \<and> division rail = - 1)"
  shows "\<exists>r t q more.
           rails_loop verbose_flag fs u i (rail # rest) fname pmbus_value p
             = Some (r, rail' # t, q)
           \<and> stdout q = stdout p2
               @ Std (TAB @ device rail @ ''@'' @ address rail @ ''-'' @ label rail
                      @ '' ('' @ alias rail @ '') = ''
                      @ show_int (truncated_quotient raw (division rail))
                      @ '' '' @ unit rail @ NL) # more
           \<and> rails_loop verbose_flag fs u (Suc i) rest fname' raw
                 (printf
                    (TAB @ device rail @ ''@'' @ address rail @ ''-'' @ label rail
                     @ '' ('' @ alias rail @ '') = ''
                     @ show_int (truncated_quotient raw (division rail))
                     @ '' '' @ unit rail @ NL)
                    (fclose fname' p2))
               = Some (r, t, q)"
proof -
  let ?line = "TAB @ device rail @ ''@'' @ address rail @ ''-'' @ label rail
     @ '' ('' @ alias rail @ '') = '' @ show_int (truncated_quotient raw (division rail))
     @ '' '' @ unit rail @ NL"
  from resolver_result[OF assms(2)] have "rail' = rail\<lparr>name := name rail'\<rparr>" by simp
  then have same: "device rail' = device rail" "address rail' = address rail"
    "label rail' = label rail" "alias rail' = alias rail" "unit rail' = unit rail"
    "division rail' = division rail"
    by (metis pmbus_info.select_convs pmbus_info.surjective pmbus_info.update_convs(3))+
  have read: "scanf_ld (show_int raw @ NL) pmbus_value = raw"
    by (rule scanf_ld_attribute[OF assms(4,5)])
  have quot: "c_div raw (division rail) = Some (truncated_quotient raw (division rail))"
    by (rule c_div_truncates[OF assms(6,7)])
  obtain r t q where rest: "rails_loop verbose_flag fs u (Suc i) rest fname' raw
      (printf ?line (fclose fname' p2)) = Some (r, t, q)"
    using rails_loop_returns[of verbose_flag fs u "Suc i" rest fname' raw
            "printf ?line (fclose fname' p2)"]
    by (metis prod_cases3)
  from rails_loop_output_grows[OF rest] obtain more where
    out: "stdout q = stdout p2 @ Std ?line # more" by auto
  have "rails_loop verbose_flag fs u i (rail # rest) fname pmbus_value p
      = Some (r, rail' # t, q)"
    using assms(1,2,3) same read quot rest by simp
  with out rest show ?thesis by blast
qed

theorem C6_witness:
  "print_pmbus_info False fs_scenario_A u_zero [rail_A, sentinel] p_init =
     Some (Returned (), [rail_A\<lparr>name := ''temp1_input''\<rparr>, sentinel],
           \<lparr>errno = 2,
            stdout = [Std (NL @ ''Power Utilization:'' @ NL),
                      Std (TAB @ ''irps5401@6-0043-temp1 (Temperature) = 45 C'' @ NL)],
            calls = [Opendir Class_dir ''/sys/class/hwmon'', Closedir ''/sys/class/hwmon'',
                     Fopen_failed Driver_name
                       ''/sys/class/hwmon/hwmon0/device/driver/6-0043/name'',
                     Fopen_failed Driver_name
                       ''/sys/class/hwmon/hwmon1/device/driver/6-0043/name'',
                     Fopen_failed Driver_name
                       ''/sys/class/hwmon/hwmon2/device/driver/6-0043/name'',
                     Fopen Driver_name ''/sys/class/hwmon/hwmon3/device/driver/6-0043/name'',
                     Fclose ''/sys/class/hwmon/hwmon3/device/driver/6-0043/name'',
                     Opendir Driver_hwmon
                       ''/sys/class/hwmon/hwmon3/device/driver/6-0043/hwmon'',
                     Opendir Label_dir ''/sys/class/hwmon/hwmon3'',
                     Fopen Label_file ''/sys/class/hwmon/hwmon3/temp1_label'',
                     Fclose ''/sys/class/hwmon/hwmon3/temp1_label'',
                     Fopen Value_file ''/sys/class/hwmon/hwmon3/temp1_input'',
                     Fclose ''/sys/class/hwmon/hwmon3/temp1_input''],
            fd_free = 1019\<rparr>)"
proof -
  let ?p0 = "printf (NL @ ''Power Utilization:'' @ NL) p_init"
  let ?calls1 = "[Opendir Class_dir ''/sys/class/hwmon'', Closedir ''/sys/class/hwmon'',
      Fopen_failed Driver_name ''/sys/class/hwmon/hwmon0/device/driver/6-0043/name'',
      Fopen_failed Driver_name ''/sys/class/hwmon/hwmon1/device/driver/6-0043/name'',
      Fopen_failed Driver_name ''/sys/class/hwmon/hwmon2/device/driver/6-0043/name'',
      Fopen Driver_name ''/sys/class/hwmon/hwmon3/device/driver/6-0043/name'',
      Fclose ''/sys/class/hwmon/hwmon3/device/driver/6-0043/name'',
      Opendir Driver_hwmon ''/sys/class/hwmon/hwmon3/device/driver/6-0043/hwmon'',
      Opendir Label_dir ''/sys/class/hwmon/hwmon3'',
      Fopen Label_file ''/sys/class/hwmon/hwmon3/temp1_label'',
      Fclose ''/sys/class/hwmon/hwmon3/temp1_label'']"
  let ?p1 = "\<lparr>errno = 2, stdout = [Std (NL @ ''Power Utilization:'' @ NL)], calls = ?calls1,
      fd_free = 1019\<rparr>"
  let ?p2 = "?p1\<lparr>calls := ?calls1 @ [Fopen Value_file ''/sys/class/hwmon/hwmon3/temp1_input''],
      fd_free := 1018\<rparr>"
  have dev: "device rail_A \<noteq> []" by (simp add: rail_A_def row_def)
  have resolved: "get_pmbus_device_filename False fs_scenario_A u_zero rail_A []
      (vprintf False
         (''['' @ show_int (int 0) @ ''] '' @ device rail_A @ '','' @ address rail_A @ '',''
          @ label rail_A @ '','' @ name rail_A @ '','' @ unit rail_A @ NL) ?p0)
      = Some (Found 3, ''/sys/class/hwmon/hwmon3/temp1_input'',
              rail_A\<lparr>name := ''temp1_input''\<rparr>, ?p1)"
    by (simp add: rail_A_def fs_scenario_A_def eval_defs)
  have opened: "fopen fs_scenario_A Value_file ''/sys/class/hwmon/hwmon3/temp1_input''
      (vprintf False
         (TAB @ device rail_A @ ''@'' @ address rail_A @ ''-'' @ label rail_A @ '' => ''
          @ ''/sys/class/hwmon/hwmon3/temp1_input'' @ NL) ?p1)
      = (Some (show_int 45000 @ NL), ?p2)"
    by (simp add: fs_scenario_A_def fopen_def vprintf_def mk_fs_def show_int_def
          show_nat.simps digit_char_def)
  have dv: "division rail_A \<noteq> 0" "\<not> (45000 = LONG_MIN \<and> division rail_A = - 1)"
    by (simp_all add: rail_A_def row_def)
  from C6_reported_line[OF dev resolved opened _ _ dv, of "[sentinel]" "low64 (u_pmbus_value u_zero)"]
  obtain r t q more where
    run: "rails_loop False fs_scenario_A u_zero 0 [rail_A, sentinel] []
            (low64 (u_pmbus_value u_zero)) ?p0 = Some (r, rail_A\<lparr>name := ''temp1_input''\<rparr> # t, q)"
    and rest: "rails_loop False fs_scenario_A u_zero (Suc 0) [sentinel]
       ''/sys/class/hwmon/hwmon3/temp1_input'' 45000
       (printf
          (TAB @ device rail_A @ ''@'' @ address rail_A @ ''-'' @ label rail_A
           @ '' ('' @ alias rail_A @ '') = ''
           @ show_int (truncated_quotient 45000 (division rail_A))
           @ '' '' @ unit rail_A @ NL)
          (fclose ''/sys/class/hwmon/hwmon3/temp1_input'' ?p2))
       = Some (r, t, q)"
    by auto
  from rest have "r = Returned ()" "t = [sentinel]"
    "q = printf
          (TAB @ device rail_A @ ''@'' @ address rail_A @ ''-'' @ label rail_A
           @ '' ('' @ alias rail_A @ '') = ''
           @ show_int (truncated_quotient 45000 (division rail_A))
           @ '' '' @ unit rail_A @ NL)
          (fclose ''/sys/class/hwmon/hwmon3/temp1_input'' ?p2)"
    by (simp_all add: sentinel_def row_def)
  note result = this
  have "print_pmbus_info False fs_scenario_A u_zero [rail_A, sentinel] p_init
      = rails_loop False fs_scenario_A u_zero 0 [rail_A, sentinel] []
          (low64 (u_pmbus_value u_zero)) ?p0"
    by (simp add: print_pmbus_info_def u_zero_def del: rails_loop.simps)
  also note run
  finally show ?thesis
    by (simp add: result rail_A_def row_def truncated_quotient_def show_int_def
          show_nat.simps digit_char_def printf_def fclose_def)
qed

text \<open>
  Claim C6 as written gives the line without the tab. In scenario A the output has
  three lines, and the claimed line is none of them.
\<close>

theorem C6_counterexample:
  "report_lines (print_pmbus_info False fs_scenario_A u_zero [rail_A, sentinel] p_init)
     = ['''', ''Power Utilization:'', TAB @ ''irps5401@6-0043-temp1 (Temperature) = 45 C'']
   \<and> ''irps5401@6-0043-temp1 (Temperature) = 45 C''
       \<notin> set (report_lines
                (print_pmbus_info False fs_scenario_A u_zero [rail_A, sentinel] p_init))"
  by (simp add: report_lines_def rail_A_def fs_scenario_A_def eval_defs)

subsection \<open>The label scan\<close>

text \<open>
  The scan takes the first entry, in \<^verbatim>\<open>readdir\<close> order, whose name contains
  \<^verbatim>\<open>label\<close>, that opens, and whose first word is the descriptor's label; the
  last five characters of its name are replaced by \<^verbatim>\<open>input\<close>. (Stated for a
  process with a descriptor free, and for entries before it that, when they open,
  hold a word.)
\<close>

lemma label_scan_first_match:
  assumes "\<forall>e \<in> set before. strstr e ''label'' \<longrightarrow>
             (\<forall>c. fopen_r fs (''/sys/class/hwmon/hwmon'' @ ids @ ''/'' @ e) = Inr c \<longrightarrow>
                  (\<exists>t. scan_s c = Some t \<and> t \<noteq> label d))"
    and "strstr e ''label''"
    and "fopen_r fs (''/sys/class/hwmon/hwmon'' @ ids @ ''/'' @ e) = Inr c"
    and "scan_s c = Some (label d)"
  shows "0 < fd_free p \<Longrightarrow>
         \<exists>q. label_scan v fs d ids (before @ e # after) F rl p
           = Matched (take (length e - 5) e @ ''input'')
               (''/sys/class/hwmon/hwmon'' @ ids @ ''/'' @ take (length e - 5) e @ ''input'') q"
  using assms(1)
proof (induction before arbitrary: F rl p)
  case Nil
  with assms(2-4) show ?case by (simp add: fopen_with_descriptor scanf_s_def)
next
  case (Cons b before)
  then have IH: "\<And>F rl p. 0 < fd_free p \<Longrightarrow>
      \<exists>q. label_scan v fs d ids (before @ e # after) F rl p
           = Matched (take (length e - 5) e @ ''input'')
               (''/sys/class/hwmon/hwmon'' @ ids @ ''/'' @ take (length e - 5) e @ ''input'') q"
    by simp
  show ?case
  proof (cases "strstr b ''label''")
    case False
    with IH[OF Cons.prems(1)] show ?thesis by simp
  next
    case True
    show ?thesis
    proof (cases "fopen_r fs (''/sys/class/hwmon/hwmon'' @ ids @ ''/'' @ b)")
      case (Inl err)
      with True Cons.prems(1)
        IH[of "printf (''unable to open '' @ ''/sys/class/hwmon/hwmon'' @ ids @ ''/'' @ b @ NL)
                 (p\<lparr>errno := err,
                     calls := calls p @ [Fopen_failed Label_file
                        (''/sys/class/hwmon/hwmon'' @ ids @ ''/'' @ b)]\<rparr>)"
              "''/sys/class/hwmon/hwmon'' @ ids @ ''/'' @ b" rl]
      show ?thesis by (simp add: fopen_with_descriptor)
    next
      case (Inr cb)
      with True Cons.prems obtain t where "scan_s cb = Some t" "t \<noteq> label d" by auto
      with True Inr Cons.prems(1)
        IH[of "fclose (''/sys/class/hwmon/hwmon'' @ ids @ ''/'' @ b)
                 (p\<lparr>calls := calls p @ [Fopen Label_file
                        (''/sys/class/hwmon/hwmon'' @ ids @ ''/'' @ b)],
                     fd_free := fd_free p - 1\<rparr>)"
              "''/sys/class/hwmon/hwmon'' @ ids @ ''/'' @ b" t]
      show ?thesis by (simp add: fopen_with_descriptor scanf_s_def)
    qed
  qed
qed

lemma label_suffix_replaced:
  "take (length (channel @ ''_label'') - 5) (channel @ ''_label'') @ ''input''
   = channel @ ''_input''"
  by simp

text \<open>
  When the scan finds nothing the loop goes on from the hwmon index that the body
  has read, not from the loop's own count. With the two chips, and a label that the
  chip at \<^verbatim>\<open>6-0043\<close> does not have, an iteration at index 0 or 1 reads index 0,
  scans \<^verbatim>\<open>hwmon0\<close> without a match, and is followed by the iteration at index 1.
  Each such iteration leaves the directory of line 1807 open. With two descriptors or
  more free it goes on with one less; with one, the directory to scan does not open
  any more and the resolver returns \<^verbatim>\<open>errno\<close>.
\<close>

lemma two_chips_iteration:
  assumes "hwmon_id l = 0 \<or> hwmon_id l = 1" and "fd_free p = Suc (Suc j)"
  shows "\<exists>F rl p'. loop_body False fs_two_chips rail_pout5 l p
           = Continue \<lparr>hwmon_id = 0, filename = F, device_name = ''irps5401'',
                       reg_label = rl\<rparr> p'
         \<and> fd_free p' = Suc j"
proof (cases j)
  case 0
  with assms show ?thesis
    by (cases l)
       (auto simp: fs_two_chips_def rail_pout5_def loop_body_def select_channel_def fopen_def
          fclose_def opendir_def closedir_def printf_def scanf_s_def scanf_d_def scan_s_def
          scan_d_def scan_int_def strtol_clamp_def low32_def
          isspace_def isdigit_def digit_val_def digit_char_def show_int_def show_nat.simps
          row_def mk_fs_def Let_def)
next
  case (Suc j')
  with assms show ?thesis
    by (cases l)
       (auto simp: fs_two_chips_def rail_pout5_def loop_body_def select_channel_def fopen_def
          fclose_def opendir_def closedir_def printf_def scanf_s_def scanf_d_def scan_s_def
          scan_d_def scan_int_def strtol_clamp_def low32_def
          isspace_def isdigit_def digit_val_def digit_char_def show_int_def show_nat.simps
          row_def mk_fs_def Let_def)
qed

lemma two_chips_last_iteration:
  assumes "hwmon_id l = 0 \<or> hwmon_id l = 1" and "fd_free p = Suc 0"
  shows "\<exists>p'. loop_body False fs_two_chips rail_pout5 l p
           = Return (Errno EMFILE) ''/sys/class/hwmon/hwmon0'' rail_pout5 p'
         \<and> fd_free p' = 0
         \<and> stdout p' = stdout p @ [Std (''Unable to open /sys/class/hwmon/hwmon0 path'' @ NL)]"
  using assms
  by (cases l)
     (auto simp: fs_two_chips_def rail_pout5_def loop_body_def select_channel_def fopen_def
        fclose_def opendir_def closedir_def printf_def scanf_s_def scanf_d_def scan_s_def
        scan_d_def scan_int_def strtol_clamp_def low32_def
        isspace_def isdigit_def digit_val_def digit_char_def show_int_def show_nat.simps
        row_def mk_fs_def Let_def)

lemma two_chips_loop_runs_out:
  "hwmon_id l = 0 \<or> hwmon_id l = 1 \<Longrightarrow> fd_free p = Suc j \<Longrightarrow>
   \<exists>q. hwmon_loop False fs_two_chips rail_pout5 2 l p
         = Some (Errno EMFILE, ''/sys/class/hwmon/hwmon0'', rail_pout5, q)
       \<and> fd_free q = 0
       \<and> last (stdout q) = Std (''Unable to open /sys/class/hwmon/hwmon0 path'' @ NL)"
proof (induction j arbitrary: l p)
  case 0
  from two_chips_last_iteration[OF 0(1)] 0(2)
  obtain p' where "loop_body False fs_two_chips rail_pout5 l p
      = Return (Errno EMFILE) ''/sys/class/hwmon/hwmon0'' rail_pout5 p'" "fd_free p' = 0"
    "stdout p' = stdout p @ [Std (''Unable to open /sys/class/hwmon/hwmon0 path'' @ NL)]"
    by auto
  with 0(1) show ?case by (subst hwmon_loop.simps) auto
next
  case (Suc j)
  from two_chips_iteration[OF Suc.prems]
  obtain F rl p' where body: "loop_body False fs_two_chips rail_pout5 l p
      = Continue \<lparr>hwmon_id = 0, filename = F, device_name = ''irps5401'', reg_label = rl\<rparr> p'"
    and fd: "fd_free p' = Suc j" by blast
  from Suc.IH[of "\<lparr>hwmon_id = 1, filename = F, device_name = ''irps5401'', reg_label = rl\<rparr>" p']
    fd
  obtain q where "hwmon_loop False fs_two_chips rail_pout5 2
      \<lparr>hwmon_id = 1, filename = F, device_name = ''irps5401'', reg_label = rl\<rparr> p'
      = Some (Errno EMFILE, ''/sys/class/hwmon/hwmon0'', rail_pout5, q)" "fd_free q = 0"
    "last (stdout q) = Std (''Unable to open /sys/class/hwmon/hwmon0 path'' @ NL)"
    by auto
  with Suc.prems(1) body show ?case by (subst hwmon_loop.simps) auto
qed

lemma two_chips_resolver_runs_out:
  assumes "fd_free p = Suc j"
  shows "\<exists>q. get_pmbus_device_filename False fs_two_chips u rail_pout5 F p
         = Some (Errno EMFILE, ''/sys/class/hwmon/hwmon0'', rail_pout5, q)
       \<and> fd_free q = 0
       \<and> last (stdout q) = Std (''Unable to open /sys/class/hwmon/hwmon0 path'' @ NL)"
proof -
  from assms have count: "count_hwmon_reg_devices fs_two_chips p
      = (2, closedir ''/sys/class/hwmon''
              (p\<lparr>calls := calls p @ [Opendir Class_dir ''/sys/class/hwmon''],
                  fd_free := fd_free p - 1\<rparr>))"
    by (simp add: fs_two_chips_def count_hwmon_reg_devices_def opendir_def mk_fs_def)
  from two_chips_loop_runs_out[of
      "\<lparr>hwmon_id = 0, filename = F, device_name = u_device_name u,
        reg_label = u_reg_label u\<rparr>"
      "closedir ''/sys/class/hwmon''
         (p\<lparr>calls := calls p @ [Opendir Class_dir ''/sys/class/hwmon''],
             fd_free := fd_free p - 1\<rparr>)" j] assms
  show ?thesis by (simp add: get_pmbus_device_filename_def count)
qed

text \<open>
  Claim C4 says that the resolver returns \<^verbatim>\<open>NotFound\<close> when no label file
  matches. For the row of \<^verbatim>\<open>pmbus_ultra96v2\<close> with the label \<^verbatim>\<open>pout5\<close> and two
  chips of the driver, of which the one addressed has no such label, the resolver
  scans the labels of \<^verbatim>\<open>hwmon0\<close> again and again, until the 1021 descriptors of
  the process are used up by the directories it has left open. It then returns the
  \<^verbatim>\<open>errno\<close> of the \<^verbatim>\<open>opendir\<close> that failed, 24, and not -1. The reporter takes
  no notice of the value, cannot open the path left in \<^verbatim>\<open>filename\<close>, and passes
  the \<^verbatim>\<open>NULL\<close> stream to \<^verbatim>\<open>fscanf\<close>.
\<close>

theorem C4_unmatched_label_uses_up_descriptors:
  "map_option (\<lambda>(x, F, d, q). (x, exit_code x, F, d, fd_free q, last (stdout q)))
     (get_pmbus_device_filename False fs_two_chips u_zero rail_pout5 [] p_init)
   = Some (Errno EMFILE, Some 24, ''/sys/class/hwmon/hwmon0'', rail_pout5, 0,
           Std (''Unable to open /sys/class/hwmon/hwmon0 path'' @ NL))
   \<and> map_option (\<lambda>(r, t, q). (r, t, fd_free q, last (stdout q)))
       (print_pmbus_info False fs_two_chips u_zero [rail_pout5, sentinel] p_init)
     = Some (Crashed, [rail_pout5, sentinel], 0,
             Std (''unable to open /sys/class/hwmon/hwmon0'' @ NL))"
proof -
  have fd: "fd_free p_init = Suc 1020" by (simp add: p_init_def)
  from two_chips_resolver_runs_out[OF fd, of u_zero "[]"]
  have first: "map_option (\<lambda>(x, F, d, q). (x, exit_code x, F, d, fd_free q, last (stdout q)))
     (get_pmbus_device_filename False fs_two_chips u_zero rail_pout5 [] p_init)
   = Some (Errno EMFILE, Some 24, ''/sys/class/hwmon/hwmon0'', rail_pout5, 0,
           Std (''Unable to open /sys/class/hwmon/hwmon0 path'' @ NL))"
    by (auto simp: exit_code_def)
  have fd0: "fd_free (printf (NL @ ''Power Utilization:'' @ NL) p_init) = Suc 1020"
    by (simp add: p_init_def)
  from two_chips_resolver_runs_out[OF fd0, of u_zero "u_filename u_zero"]
  obtain q where res: "get_pmbus_device_filename False fs_two_chips u_zero rail_pout5
      (u_filename u_zero) (printf (NL @ ''Power Utilization:'' @ NL) p_init)
      = Some (Errno EMFILE, ''/sys/class/hwmon/hwmon0'', rail_pout5, q)" and q: "fd_free q = 0"
    by blast
  have dev: "device rail_pout5 \<noteq> []" by (simp add: rail_pout5_def row_def)
  from dev res q
  have second: "map_option (\<lambda>(r, t, q). (r, t, fd_free q, last (stdout q)))
       (print_pmbus_info False fs_two_chips u_zero [rail_pout5, sentinel] p_init)
     = Some (Crashed, [rail_pout5, sentinel], 0,
             Std (''unable to open /sys/class/hwmon/hwmon0'' @ NL))"
    by (simp add: print_pmbus_info_def fopen_no_descriptor)
  from first second show ?thesis by (rule conjI)
qed

subsection \<open>The cache of the resolved attribute\<close>















subsection \<open>The report driver on a host name with several fragments\<close>

lemma print_pmbus_info_appends:
  "print_pmbus_info v fs u pmbus_list p =
     map_option (\<lambda>(r, t, q). (r, t, q\<lparr>stdout := stdout p @ stdout q\<rparr>))
       (print_pmbus_info v fs u pmbus_list (p\<lparr>stdout := []\<rparr>))"
proof -
  have p: "p = on_stdout ((@) (stdout p)) (p\<lparr>stdout := []\<rparr>)"
    by (simp add: on_stdout_def)
  have std: "\<And>xs s. stdout p @ xs @ [Std s] = (stdout p @ xs) @ [Std s]" by simp
  have verb: "\<And>xs s. stdout p @ xs @ (if v then [Verb s] else [])
      = (stdout p @ xs) @ (if v then [Verb s] else [])" by simp
  have "print_pmbus_info v fs u pmbus_list (on_stdout ((@) (stdout p)) (p\<lparr>stdout := []\<rparr>)) =
     map_option (\<lambda>(r, t, q). (r, t, on_stdout ((@) (stdout p)) q))
       (print_pmbus_info v fs u pmbus_list (p\<lparr>stdout := []\<rparr>))"
    by (rule on_stdout_print_pmbus_info[of "(@) (stdout p)" v v, OF std verb])
  with p show ?thesis by (simp add: on_stdout_def)
qed

lemma stdout_after_report:
  assumes "print_pmbus_info v fs u pmbus_list p = Some (r, t, q)"
  shows "stdout q = stdout p @ power_report v fs u pmbus_list p"
  using assms print_pmbus_info_appends[of v fs u pmbus_list p]
  by (auto simp: power_report_def)

lemma stdout_after_titled_report:
  assumes "print_pmbus_info v fs u pmbus_list (vprintf v title p) = Some (r, t, q)"
  shows "stdout q = stdout p @ (if v then [Verb title] else []) @ power_report v fs u pmbus_list p"
proof -
  have eq: "(vprintf v title p)\<lparr>stdout := []\<rparr> = p\<lparr>stdout := []\<rparr>"
    by (simp add: vprintf_def)
  have "power_report v fs u pmbus_list (vprintf v title p) = power_report v fs u pmbus_list p"
    unfolding power_report_def eq by (rule refl)
  with stdout_after_report[OF assms] show ?thesis by simp
qed

text \<open>
  The three tests of the host name follow one another and none excludes the others.
  When the reports that are run return, \<^verbatim>\<open>print_power_utilization\<close> returns 0
  and has printed, after the host name line of the verbose mode, the report of every
  table whose fragment occurs in the host name, in the order Ultra96-V2,
  UltraZed-7EV, UltraZed-3EG, each after its title line of the verbose mode.
\<close>

lemma reports_follow_in_table_order:
  assumes "hostname = (case read_hostname hostname_cmd of None \<Rightarrow> [] | Some line \<Rightarrow> line)"
    and "p0 = (case read_hostname hostname_cmd of
                 None \<Rightarrow> p
               | Some line \<Rightarrow> vprintf verbose_flag (''hostname='' @ line @ NL) p)"
    and "(if strstr hostname ''u96v2''
          then print_pmbus_info verbose_flag fs u (ultra96v2 g)
                 (vprintf verbose_flag (''Ultra96-V2'' @ NL) p0)
          else Some (Returned (), ultra96v2 g, p0)) = Some (Returned (), t1, p1)"
    and "(if strstr hostname ''uz7ev''
          then print_pmbus_info verbose_flag fs u (uz7ev_evcc g)
                 (vprintf verbose_flag (''UltraZed-7EV-EVCC'' @ NL) p1)
          else Some (Returned (), uz7ev_evcc g, p1)) = Some (Returned (), t2, p2)"
    and "(if strstr hostname ''uz3eg''
          then print_pmbus_info verbose_flag fs u (uz3eg_xxx g)
                 (vprintf verbose_flag (''UltraZed-3EG'' @ NL) p2)
          else Some (Returned (), uz3eg_xxx g, p2)) = Some (Returned (), t3, p3)"
  shows "print_power_utilization verbose_flag fs u hostname_cmd g p
           = Some (Returned 0, g\<lparr>ultra96v2 := t1, uz7ev_evcc := t2, uz3eg_xxx := t3\<rparr>, p3)
       \<and> stdout p3 = stdout p0
           @ (if strstr hostname ''u96v2''
              then (if verbose_flag then [Verb (''Ultra96-V2'' @ NL)] else [])
                   @ power_report verbose_flag fs u (ultra96v2 g) p0
              else [])
           @ (if strstr hostname ''uz7ev''
              then (if verbose_flag then [Verb (''UltraZed-7EV-EVCC'' @ NL)] else [])
                   @ power_report verbose_flag fs u (uz7ev_evcc g) p1
              else [])
           @ (if strstr hostname ''uz3eg''
              then (if verbose_flag then [Verb (''UltraZed-3EG'' @ NL)] else [])
                   @ power_report verbose_flag fs u (uz3eg_xxx g) p2
              else [])"
proof -
  have run: "print_power_utilization verbose_flag fs u hostname_cmd g p
      = Some (Returned 0, g\<lparr>ultra96v2 := t1, uz7ev_evcc := t2, uz3eg_xxx := t3\<rparr>, p3)"
    using assms(3-5) unfolding assms(1,2)
    by (simp add: print_power_utilization_def Let_def)
  have o1: "stdout p1 = stdout p0
      @ (if strstr hostname ''u96v2''
         then (if verbose_flag then [Verb (''Ultra96-V2'' @ NL)] else [])
              @ power_report verbose_flag fs u (ultra96v2 g) p0
         else [])"
    using assms(3) by (auto split: if_splits dest: stdout_after_titled_report)
  have o2: "stdout p2 = stdout p1
      @ (if strstr hostname ''uz7ev''
         then (if verbose_flag then [Verb (''UltraZed-7EV-EVCC'' @ NL)] else [])
              @ power_report verbose_flag fs u (uz7ev_evcc g) p1
         else [])"
    using assms(4) by (auto split: if_splits dest: stdout_after_titled_report)
  have o3: "stdout p3 = stdout p2
      @ (if strstr hostname ''uz3eg''
         then (if verbose_flag then [Verb (''UltraZed-3EG'' @ NL)] else [])
              @ power_report verbose_flag fs u (uz3eg_xxx g) p2
         else [])"
    using assms(5) by (auto split: if_splits dest: stdout_after_titled_report)
  from run o1 o2 o3 show ?thesis by simp
qed

lemma two_boards_both_reported:
  "print_power_utilization False fs_two_boards u_zero (Some (''u96v2-uz7ev'' @ NL)) tables_cut
     p_init
   = Some (Returned 0, tables_cut,
       \<lparr>errno = 2,
        stdout =
          [Std (NL @ ''Power Utilization:'' @ NL),
           Std (TAB @ ''ir38060@6-0045-temp1 (Temperature) = 38 C'' @ NL),
           Std (NL @ ''Power Utilization:'' @ NL),
           Std (TAB @ ''irps5401@6-0049-temp1 (              Temperature) = 41 C'' @ NL)],
        calls =
          [Opendir Class_dir ''/sys/class/hwmon'', Closedir ''/sys/class/hwmon'',
           Fopen Driver_name ''/sys/class/hwmon/hwmon0/device/driver/6-0045/name'',
           Fclose ''/sys/class/hwmon/hwmon0/device/driver/6-0045/name'',
           Opendir Driver_hwmon ''/sys/class/hwmon/hwmon0/device/driver/6-0045/hwmon'',
           Fopen Value_file ''/sys/class/hwmon/hwmon0/temp1_input'',
           Fclose ''/sys/class/hwmon/hwmon0/temp1_input'',
           Opendir Class_dir ''/sys/class/hwmon'', Closedir ''/sys/class/hwmon'',
           Fopen_failed Driver_name ''/sys/class/hwmon/hwmon0/device/driver/6-0049/name'',
           Fopen Driver_name ''/sys/class/hwmon/hwmon1/device/driver/6-0049/name'',
           Fclose ''/sys/class/hwmon/hwmon1/device/driver/6-0049/name'',
           Opendir Driver_hwmon ''/sys/class/hwmon/hwmon1/device/driver/6-0049/hwmon'',
           Fopen Value_file ''/sys/class/hwmon/hwmon1/temp1_input'',
           Fclose ''/sys/class/hwmon/hwmon1/temp1_input''],
        fd_free = 1019\<rparr>)"
proof -
  let ?P1 = "\<lparr>errno = 0,
        stdout =
          [Std (NL @ ''Power Utilization:'' @ NL),
           Std (TAB @ ''ir38060@6-0045-temp1 (Temperature) = 38 C'' @ NL)],
        calls =
          [Opendir Class_dir ''/sys/class/hwmon'', Closedir ''/sys/class/hwmon'',
           Fopen Driver_name ''/sys/class/hwmon/hwmon0/device/driver/6-0045/name'',
           Fclose ''/sys/class/hwmon/hwmon0/device/driver/6-0045/name'',
           Opendir Driver_hwmon ''/sys/class/hwmon/hwmon0/device/driver/6-0045/hwmon'',
           Fopen Value_file ''/sys/class/hwmon/hwmon0/temp1_input'',
           Fclose ''/sys/class/hwmon/hwmon0/temp1_input''],
        fd_free = 1020\<rparr>"
  let ?P2 = "?P1\<lparr>errno := 2,
        stdout := stdout ?P1 @
          [Std (NL @ ''Power Utilization:'' @ NL),
           Std (TAB @ ''irps5401@6-0049-temp1 (              Temperature) = 41 C'' @ NL)],
        calls := calls ?P1 @
          [Opendir Class_dir ''/sys/class/hwmon'', Closedir ''/sys/class/hwmon'',
           Fopen_failed Driver_name ''/sys/class/hwmon/hwmon0/device/driver/6-0049/name'',
           Fopen Driver_name ''/sys/class/hwmon/hwmon1/device/driver/6-0049/name'',
           Fclose ''/sys/class/hwmon/hwmon1/device/driver/6-0049/name'',
           Opendir Driver_hwmon ''/sys/class/hwmon/hwmon1/device/driver/6-0049/hwmon'',
           Fopen Value_file ''/sys/class/hwmon/hwmon1/temp1_input'',
           Fclose ''/sys/class/hwmon/hwmon1/temp1_input''],
        fd_free := 1019\<rparr>"
  have r1: "print_pmbus_info False fs_two_boards u_zero (ultra96v2 tables_cut) p_init
      = Some (Returned (), ultra96v2 tables_cut, ?P1)"
    by (simp add: tables_cut_def pmbus_ultra96v2_def fs_two_boards_def eval_defs)
  have r2: "print_pmbus_info False fs_two_boards u_zero (uz7ev_evcc tables_cut) ?P1
      = Some (Returned (), uz7ev_evcc tables_cut, ?P2)"
    by (simp add: tables_cut_def pmbus_uz7ev_evcc_def fs_two_boards_def eval_defs)
  have h: "''u96v2-uz7ev'' @ NL
      = (case read_hostname (Some (''u96v2-uz7ev'' @ NL)) of None \<Rightarrow> [] | Some line \<Rightarrow> line)"
    by (simp add: read_hostname_def fgets_def)
  have p0: "p_init
      = (case read_hostname (Some (''u96v2-uz7ev'' @ NL)) of
           None \<Rightarrow> p_init
         | Some line \<Rightarrow> vprintf False (''hostname='' @ line @ NL) p_init)"
    by (simp add: read_hostname_def fgets_def)
  have a1: "(if strstr (''u96v2-uz7ev'' @ NL) ''u96v2''
          then print_pmbus_info False fs_two_boards u_zero (ultra96v2 tables_cut)
                 (vprintf False (''Ultra96-V2'' @ NL) p_init)
          else Some (Returned (), ultra96v2 tables_cut, p_init))
      = Some (Returned (), ultra96v2 tables_cut, ?P1)"
    using r1 by simp
  have a2: "(if strstr (''u96v2-uz7ev'' @ NL) ''uz7ev''
          then print_pmbus_info False fs_two_boards u_zero (uz7ev_evcc tables_cut)
                 (vprintf False (''UltraZed-7EV-EVCC'' @ NL) ?P1)
          else Some (Returned (), uz7ev_evcc tables_cut, ?P1))
      = Some (Returned (), uz7ev_evcc tables_cut, ?P2)"
    using r2 by simp
  have a3: "(if strstr (''u96v2-uz7ev'' @ NL) ''uz3eg''
          then print_pmbus_info False fs_two_boards u_zero (uz3eg_xxx tables_cut)
                 (vprintf False (''UltraZed-3EG'' @ NL) ?P2)
          else Some (Returned (), uz3eg_xxx tables_cut, ?P2))
      = Some (Returned (), uz3eg_xxx tables_cut, ?P2)"
    by simp
  from reports_follow_in_table_order[OF h p0 a1 a2 a3]
  show ?thesis
    by simp
qed

text \<open>
  Claim C10 says that for a host name with more than one fragment the program
  prints the full report of every matching table, in the order of the tests. The
  tests are independent, as the lemma above shows, but a report that does not
  return ends the run. On the board with the one UltraZed-7EV chip and the host name
  \<^verbatim>\<open>u96v2-uz7ev\<close>, the first rail of \<^verbatim>\<open>pmbus_ultra96v2\<close> has no bound
  instance; the reporter passes the \<^verbatim>\<open>NULL\<close> stream to \<^verbatim>\<open>fscanf\<close>, as in
  claim C1, and the report of \<^verbatim>\<open>pmbus_uz7ev_evcc\<close> is never started.
\<close>

theorem C10_crash_ends_the_reports:
  "map_option (\<lambda>(r, g, q). (r, g, stdout q))
     (print_power_utilization False fs_uz7ev_chip u_zero (Some (''u96v2-uz7ev'' @ NL))
        initial_tables p_init)
   = Some (Crashed, initial_tables,
           [Std (NL @ ''Power Utilization:'' @ NL),
            Std (''unable to open /sys/class/hwmon/hwmon0/device/driver/6-0045/name'' @ NL)])"
  by (simp add: print_power_utilization_def read_hostname_def fgets_def initial_tables_def
        pmbus_ultra96v2_def fs_uz7ev_chip_def eval_defs)

end
